theory Spec2Isabelle
  imports Main "HOL-Library.Word"
begin

section \<open>Data model\<close>

text \<open>
  The task executor Manager of \<^verbatim>\<open>pkg/disttask/framework/taskexecutor/manager.go\<close>.
  The Manager talks to collaborators that live outside this file: the task table (the
  registry), the slot manager, the executors built by the task-type factories, the shared
  context, the logger and the wait groups. Every call the Manager makes on one of them is
  appended to a trace of events, so that what was called, on whom and in which order can
  be stated. What a collaborator answers is a parameter of the model.
\<close>

datatype error =
    Err string
  | TaskTypeNotFound string
  | InvalidCpuOrMemory int int

text \<open>
  Modelled from the spec: the declaration of \<^verbatim>\<open>proto.Task\<close> and of its states is not
  part of the sources at hand. The spec gives a task a numeric identity, a type tag, a
  concurrency requirement, a state out of the nine below, and a registry-provided priority.
\<close>

datatype TaskState =
    TaskStatePending
  | TaskStateRunning
  | TaskStateReverting
  | TaskStatePausing
  | TaskStatePaused
  | TaskStateSucceed
  | TaskStateFailed
  | TaskStateReverted
  | TaskStateCanceled

record Task =
  ID :: int
  Type :: string
  State :: TaskState
  Concurrency :: int
  Priority :: int

text \<open>\<^verbatim>\<open>storage.TaskExecInfo\<close> embeds the task; \<^verbatim>\<open>task.Task\<close> reads it.\<close>

record TaskExecInfo =
  Task :: Task

datatype Level = Debug | Info | Warn | Error

datatype Loop = handleTasksLoop | recoverMetaLoop

datatype Event =
    Log Level string
  | TaskTable_GetTaskExecInfoByExecID string
  | TaskTable_PauseSubtasks string int
  | TaskTable_FailSubtask string int error
  | TaskTable_RecoverMeta string string
  | Time_Sleep nat
  | SlotManager_alloc int
  | SlotManager_free int
  | Mu_Lock
  | Mu_Unlock
  | TaskExecutors_store int
  | TaskExecutors_delete int
  | Executor_Init int
  | Executor_Run int
  | Executor_Cancel int
  | Executor_CancelRunningSubtask int
  | Executor_Close int
  | ExecutorWG_RunWithLog int
  | ExecutorWG_Wait
  | WG_Run Loop
  | WG_Wait
  | Ctx_cancel

text \<open>
  How \<^verbatim>\<open>executor.Run\<close> comes back: by returning (whatever the run met: success, an
  error, a cancellation) or by panicking. A run that never comes back has no outcome.
\<close>

datatype RunOutcome = Returned | Panicked

text \<open>
  The \<^verbatim>\<open>TaskExecutor\<close> interface. The state \<open>'w\<close> is the state of everything outside the
  Manager (registry rows, the context, the executors' own state); a method is a function
  on it. The \<^verbatim>\<open>resource\<close> argument of \<^verbatim>\<open>Run\<close> is computed in floating point by
  \<^verbatim>\<open>getStepResource\<close> and is left out.
\<close>

record 'w TaskExecutor =
  GetTask :: Task
  Init :: "'w \<Rightarrow> error option \<times> 'w"
  Run :: "'w \<Rightarrow> (RunOutcome \<times> 'w) option"
  Cancel :: "'w \<Rightarrow> 'w"
  CancelRunningSubtask :: "'w \<Rightarrow> 'w"
  Close :: "'w \<Rightarrow> 'w"
  IsRetryableError :: "error \<Rightarrow> bool"

text \<open>
  The collaborators, as parameters: the slot manager over its own state \<open>'s\<close>
  (\<^verbatim>\<open>newSlotManager\<close>, \<^verbatim>\<open>canAlloc\<close>, \<^verbatim>\<open>alloc\<close>, \<^verbatim>\<open>free\<close>), the factory table, the task
  table, the context, the clock and the configured service scope.
\<close>

record ('s, 'w) Env =
  newSlotManager :: "int \<Rightarrow> 's"
  canAlloc :: "'s \<Rightarrow> Task \<Rightarrow> bool \<times> Task list"
  alloc :: "'s \<Rightarrow> Task \<Rightarrow> 's"
  free :: "'s \<Rightarrow> int \<Rightarrow> 's"
  GetTaskExecutorFactory :: "string \<Rightarrow> (string \<Rightarrow> Task \<Rightarrow> 'w TaskExecutor) option"
  GetTaskExecInfoByExecID :: "string \<Rightarrow> 'w \<Rightarrow> (error + TaskExecInfo list) \<times> 'w"
  PauseSubtasks :: "string \<Rightarrow> int \<Rightarrow> 'w \<Rightarrow> error option \<times> 'w"
  FailSubtask :: "string \<Rightarrow> int \<Rightarrow> error \<Rightarrow> 'w \<Rightarrow> error option \<times> 'w"
  RecoverMeta :: "string \<Rightarrow> string \<Rightarrow> 'w \<Rightarrow> error option \<times> 'w"
  TiDBServiceScope :: "'w \<Rightarrow> string"
  ctx_Err :: "'w \<Rightarrow> error option"
  ctx_cancel :: "'w \<Rightarrow> 'w"
  time_Sleep :: "nat \<Rightarrow> 'w \<Rightarrow> 'w"

text \<open>
  The Manager: the fields of the Go struct the code reads (\<open>id_m\<close> is \<^verbatim>\<open>m.id\<close>), the units
  of work handed to \<^verbatim>\<open>executorWG\<close> and to \<^verbatim>\<open>wg\<close> that have not finished, the state of the
  outside world, and the trace.
\<close>

record ('s, 'w) Manager =
  id_m :: string
  taskExecutors :: "int \<rightharpoonup> 'w TaskExecutor"
  slotManager :: 's
  totalCPU :: int
  totalMem :: int
  executorWG :: "(Task \<times> 'w TaskExecutor) list"
  wg :: "Loop list"
  world :: 'w
  trace :: "Event list"

definition retrySQLTimes :: nat where
  "retrySQLTimes = 30"

definition retrySQLInterval :: nat where
  "retrySQLInterval = 500"

section \<open>The Manager's operations\<close>

definition emit :: "Event list \<Rightarrow> ('s, 'w) Manager \<Rightarrow> ('s, 'w) Manager" where
  "emit es m = m\<lparr>trace := trace m @ es\<rparr>"

definition NewManager ::
  "('s, 'w) Env \<Rightarrow> string \<Rightarrow> error + 64 word \<Rightarrow> int \<Rightarrow> 'w \<Rightarrow> error + ('s, 'w) Manager" where
  "NewManager env ident memTotal cpuCount w =
     (case memTotal of
        Inl err \<Rightarrow> Inl err
      | Inr totalMem' \<Rightarrow>
          if cpuCount \<le> 0 \<or> totalMem' \<le> 0
          then Inl (InvalidCpuOrMemory cpuCount (uint totalMem'))
          else Inr \<lparr>id_m = ident, taskExecutors = Map.empty,
                    slotManager = newSlotManager env cpuCount,
                    totalCPU = cpuCount, totalMem = sint totalMem',
                    executorWG = [], wg = [], world = w,
                    trace = [Log Info ''build task executor manager'']\<rparr>)"

definition logErr :: "error \<Rightarrow> ('s, 'w) Manager \<Rightarrow> ('s, 'w) Manager" where
  "logErr err m = emit [Log Error ''task manager met error''] m"

text \<open>
  The two writers of the executor set hold \<^verbatim>\<open>m.mu\<close> for writing around their change of the
  map; the trace has the lock and the unlock. The readers take the read lock, which the
  trace leaves out.
\<close>

definition addTaskExecutor :: "'w TaskExecutor \<Rightarrow> ('s, 'w) Manager \<Rightarrow> ('s, 'w) Manager" where
  "addTaskExecutor executor m =
     (emit [Mu_Lock, TaskExecutors_store (ID (GetTask executor)), Mu_Unlock] m)
       \<lparr>taskExecutors := (taskExecutors m)(ID (GetTask executor) \<mapsto> executor)\<rparr>"

definition delTaskExecutor :: "'w TaskExecutor \<Rightarrow> ('s, 'w) Manager \<Rightarrow> ('s, 'w) Manager" where
  "delTaskExecutor executor m =
     (emit [Mu_Lock, TaskExecutors_delete (ID (GetTask executor)), Mu_Unlock] m)
       \<lparr>taskExecutors := (taskExecutors m)(ID (GetTask executor) := None)\<rparr>"

definition isExecutorStarted :: "('s, 'w) Manager \<Rightarrow> int \<Rightarrow> bool" where
  "isExecutorStarted m taskID = (taskExecutors m taskID \<noteq> None)"

subsection \<open>Identity recovery\<close>

text \<open>
  One pass of the body of the loop of \<^verbatim>\<open>recoverMeta\<close>: either the function is left with
  a result (\<open>Return\<close>: the \<^verbatim>\<open>break\<close> on success, which returns nil, or the context's
  error), or the attempt failed, was slept on, and the loop goes on with that error.
\<close>

datatype ('s, 'w) Attempt =
    Return "error option" "('s, 'w) Manager"
  | Retry error "('s, 'w) Manager"

definition recoverMetaAttempt ::
  "('s, 'w) Env \<Rightarrow> nat \<Rightarrow> ('s, 'w) Manager \<Rightarrow> ('s, 'w) Attempt" where
  "recoverMetaAttempt env i m =
     (let scope = TiDBServiceScope env (world m);
          (err, w) = RecoverMeta env (id_m m) scope (world m);
          m1 = (emit [TaskTable_RecoverMeta (id_m m) scope] m)\<lparr>world := w\<rparr>
      in case err of
           None \<Rightarrow> Return None m1
         | Some e \<Rightarrow>
             (case ctx_Err env (world m1) of
                Some err1 \<Rightarrow> Return (Some err1) m1
              | None \<Rightarrow>
                  let m2 = (if i mod 10 = 0 then emit [Log Warn ''recover meta failed''] m1 else m1)
                  in Retry e ((emit [Time_Sleep retrySQLInterval] m2)
                                \<lparr>world := time_Sleep env retrySQLInterval (world m2)\<rparr>)))"

function recoverMeta_loop ::
  "('s, 'w) Env \<Rightarrow> nat \<Rightarrow> error option \<Rightarrow> ('s, 'w) Manager \<Rightarrow> error option \<times> ('s, 'w) Manager" where
  "recoverMeta_loop env i err m =
     (if i < retrySQLTimes then
        (case recoverMetaAttempt env i m of
           Return r m' \<Rightarrow> (r, m')
         | Retry e m' \<Rightarrow> recoverMeta_loop env (i + 1) (Some e) m')
      else (err, m))"
  by pat_completeness auto
termination
  by (relation "measure (\<lambda>(env, i, err, m). retrySQLTimes - i)") auto

definition recoverMeta :: "('s, 'w) Env \<Rightarrow> ('s, 'w) Manager \<Rightarrow> error option \<times> ('s, 'w) Manager" where
  "recoverMeta env m = recoverMeta_loop env 0 None m"

subsection \<open>Start\<close>

definition Start :: "('s, 'w) Manager \<Rightarrow> error option \<times> ('s, 'w) Manager" where
  "Start m =
     (let m1 = emit [Log Info ''task executor manager start''] m;
          m2 = (emit [WG_Run handleTasksLoop] m1)\<lparr>wg := wg m1 @ [handleTasksLoop]\<rparr>;
          m3 = (emit [WG_Run recoverMetaLoop] m2)\<lparr>wg := wg m2 @ [recoverMetaLoop]\<rparr>
      in (None, m3))"

subsection \<open>Signals to executors\<close>

definition cancelRunningSubtaskOf :: "int \<Rightarrow> ('s, 'w) Manager \<Rightarrow> ('s, 'w) Manager" where
  "cancelRunningSubtaskOf taskID m =
     (case taskExecutors m taskID of
        Some executor \<Rightarrow>
          (emit [Log Info ''onCanceledTasks'',
                 Executor_CancelRunningSubtask (ID (GetTask executor))] m)
            \<lparr>world := CancelRunningSubtask executor (world m)\<rparr>
      | None \<Rightarrow> m)"

definition handlePausingTask ::
  "('s, 'w) Env \<Rightarrow> int \<Rightarrow> ('s, 'w) Manager \<Rightarrow> error option \<times> ('s, 'w) Manager" where
  "handlePausingTask env taskID m =
     (let m1 = emit [Log Info ''handle pausing task''] m;
          m2 = (case taskExecutors m1 taskID of
                  Some executor \<Rightarrow>
                    (emit [Executor_Cancel (ID (GetTask executor))] m1)
                      \<lparr>world := Cancel executor (world m1)\<rparr>
                | None \<Rightarrow> m1);
          (err, w) = PauseSubtasks env (id_m m2) taskID (world m2)
      in (err, (emit [TaskTable_PauseSubtasks (id_m m2) taskID] m2)\<lparr>world := w\<rparr>))"

fun cancelTaskExecutors :: "Task list \<Rightarrow> ('s, 'w) Manager \<Rightarrow> ('s, 'w) Manager" where
  "cancelTaskExecutors [] m = m"
| "cancelTaskExecutors (task # tasks) m =
     (let m1 = emit [Log Info ''cancelTasks''] m;
          m2 = (case taskExecutors m1 (ID task) of
                  Some executor \<Rightarrow>
                    (emit [Executor_Cancel (ID (GetTask executor))] m1)
                      \<lparr>world := Cancel executor (world m1)\<rparr>
                | None \<Rightarrow> m1)
      in cancelTaskExecutors tasks m2)"

subsection \<open>Starting an executor\<close>

definition logErrAndPersist ::
  "('s, 'w) Env \<Rightarrow> error \<Rightarrow> int \<Rightarrow> 'w TaskExecutor option \<Rightarrow> ('s, 'w) Manager
     \<Rightarrow> ('s, 'w) Manager" where
  "logErrAndPersist env err taskID taskExecutor m =
     (let m1 = logErr err m in
      if (case taskExecutor of None \<Rightarrow> False | Some e \<Rightarrow> IsRetryableError e err)
      then emit [Log Error ''met retryable err''] m1
      else
        let (err1, w) = FailSubtask env (id_m m1) taskID err (world m1);
            m2 = (emit [TaskTable_FailSubtask (id_m m1) taskID err] m1)\<lparr>world := w\<rparr>;
            m3 = (if err1 \<noteq> None then emit [Log Error ''update to subtask failed''] m2 else m2)
        in emit [Log Error ''update error to subtask''] m3)"

text \<open>
  The function deferred in the unit of work that \<^verbatim>\<open>startTaskExecutor\<close> hands to
  \<^verbatim>\<open>executorWG.RunWithLog\<close>.
\<close>

definition executorExit ::
  "('s, 'w) Env \<Rightarrow> Task \<Rightarrow> 'w TaskExecutor \<Rightarrow> ('s, 'w) Manager \<Rightarrow> ('s, 'w) Manager" where
  "executorExit env task executor m =
     (let m1 = emit [Log Info ''task executor exit''] m;
          m2 = (emit [SlotManager_free (ID task)] m1)
                 \<lparr>slotManager := free env (slotManager m1) (ID task)\<rparr>;
          m3 = delTaskExecutor executor m2
      in (emit [Executor_Close (ID (GetTask executor))] m3)
           \<lparr>world := Close executor (world m3)\<rparr>)"

text \<open>
  The unit of work itself: \<^verbatim>\<open>executor.Run(resource)\<close> under the deferred function. A
  deferred function runs when the surrounding function returns and when it panics; the
  outcome of the run is handed on to \<^verbatim>\<open>RunWithLog\<close>. When the run never comes back
  there is no result.
\<close>

definition executorUnit ::
  "('s, 'w) Env \<Rightarrow> Task \<Rightarrow> 'w TaskExecutor \<Rightarrow> ('s, 'w) Manager
     \<Rightarrow> (RunOutcome \<times> ('s, 'w) Manager) option" where
  "executorUnit env task executor m =
     (case Run executor (world m) of
        None \<Rightarrow> None
      | Some (outcome, w) \<Rightarrow>
          (case outcome of
             Returned \<Rightarrow>
               Some (Returned,
                 executorExit env task executor
                   ((emit [Executor_Run (ID (GetTask executor))] m)\<lparr>world := w\<rparr>))
           | Panicked \<Rightarrow>
               Some (Panicked,
                 executorExit env task executor
                   ((emit [Executor_Run (ID (GetTask executor))] m)\<lparr>world := w\<rparr>))))"

definition startTaskExecutor ::
  "('s, 'w) Env \<Rightarrow> Task \<Rightarrow> ('s, 'w) Manager \<Rightarrow> ('s, 'w) Manager" where
  "startTaskExecutor env task m =
     (case GetTaskExecutorFactory env (Type task) of
        None \<Rightarrow> logErrAndPersist env (TaskTypeNotFound (Type task)) (ID task) None m
      | Some factory \<Rightarrow>
          let executor = factory (id_m m) task;
              (err, w) = Init executor (world m);
              m1 = (emit [Executor_Init (ID (GetTask executor))] m)\<lparr>world := w\<rparr>
          in (case err of
                Some e \<Rightarrow> logErrAndPersist env e (ID task) (Some executor) m1
              | None \<Rightarrow>
                  let m2 = addTaskExecutor executor m1;
                      m3 = (emit [SlotManager_alloc (ID task)] m2)
                             \<lparr>slotManager := alloc env (slotManager m2) task\<rparr>;
                      m4 = emit [Log Info ''task executor started''] m3
                  in (emit [ExecutorWG_RunWithLog (ID task)] m4)
                       \<lparr>executorWG := executorWG m4 @ [(task, executor)]\<rparr>))"

subsection \<open>Stop\<close>

text \<open>
  Modelled from the spec: the wait groups \<^verbatim>\<open>executorWG\<close> and \<^verbatim>\<open>wg\<close> (a wrapper around
  a wait group, with \<^verbatim>\<open>Run\<close>, \<^verbatim>\<open>RunWithLog\<close> and \<^verbatim>\<open>Wait\<close>) are not part of the sources at
  hand. The spec has each executor run as an independently scheduled unit of work, and
  has \<^verbatim>\<open>Stop\<close> wait for every launched executor's unit of work to finish and then for
  the two loops to finish, as a blocking join. So a unit handed to \<^verbatim>\<open>RunWithLog\<close> has
  left \<^verbatim>\<open>executorWG\<close> when it has come back, by returning or by panicking; and
  \<^verbatim>\<open>executorWG.Wait\<close> comes back when every unit in the group has, which it never does
  when the run of one of them never comes back. The units are joined here in the order
  they were launched, with nothing else running in between.
\<close>

definition RunWithLog ::
  "('s, 'w) Env \<Rightarrow> Task \<Rightarrow> 'w TaskExecutor \<Rightarrow> ('s, 'w) Manager \<Rightarrow> ('s, 'w) Manager option" where
  "RunWithLog env task executor m =
     (case executorUnit env task executor m of
        None \<Rightarrow> None
      | Some (outcome, m') \<Rightarrow>
          Some (m'\<lparr>executorWG := remove1 (task, executor) (executorWG m')\<rparr>))"

fun executorWG_Wait ::
  "('s, 'w) Env \<Rightarrow> (Task \<times> 'w TaskExecutor) list \<Rightarrow> ('s, 'w) Manager
     \<Rightarrow> ('s, 'w) Manager option" where
  "executorWG_Wait env [] m = Some m"
| "executorWG_Wait env ((task, executor) # units) m =
     (case RunWithLog env task executor m of
        None \<Rightarrow> None
      | Some m' \<Rightarrow> executorWG_Wait env units m')"

text \<open>
  The way out of \<^verbatim>\<open>handleTasksLoop\<close> and of \<^verbatim>\<open>recoverMetaLoop\<close>: on the canceled context
  the loop logs one line and returns, and so leaves \<^verbatim>\<open>wg\<close>. \<^verbatim>\<open>wg.Wait\<close> joins the loops
  in the group; the context is canceled by then.
\<close>

definition loopDone :: "Loop \<Rightarrow> ('s, 'w) Manager \<Rightarrow> ('s, 'w) Manager" where
  "loopDone loop m =
     (emit [Log Info (case loop of
                        handleTasksLoop \<Rightarrow> ''handle tasks loop done''
                      | recoverMetaLoop \<Rightarrow> ''recoverMetaLoop done'')] m)
       \<lparr>wg := remove1 loop (wg m)\<rparr>"

fun wg_Wait :: "Loop list \<Rightarrow> ('s, 'w) Manager \<Rightarrow> ('s, 'w) Manager" where
  "wg_Wait [] m = m"
| "wg_Wait (loop # loops) m = wg_Wait loops (loopDone loop m)"

text \<open>
  \<^verbatim>\<open>Stop\<close>: cancel the context, wait on \<^verbatim>\<open>executorWG\<close>, wait on \<^verbatim>\<open>wg\<close>. There is no result
  when the first wait never comes back.
\<close>

definition Stop :: "('s, 'w) Env \<Rightarrow> ('s, 'w) Manager \<Rightarrow> ('s, 'w) Manager option" where
  "Stop env m =
     (let m1 = (emit [Ctx_cancel] m)\<lparr>world := ctx_cancel env (world m)\<rparr>;
          m2 = emit [ExecutorWG_Wait] m1
      in case executorWG_Wait env (executorWG m2) m2 of
           None \<Rightarrow> None
         | Some m3 \<Rightarrow>
             let m4 = emit [WG_Wait] m3
             in Some (wg_Wait (wg m4) m4))"

subsection \<open>The reconciliation round\<close>

text \<open>
  One pass of the body of the loop of \<^verbatim>\<open>handleExecutableTasks\<close>: it ends the loop
  (\<^verbatim>\<open>break\<close>) or goes on to the next candidate (\<^verbatim>\<open>continue\<close>, or the end of the body).
\<close>

datatype 'a Iter = Break 'a | Continue 'a

definition handleExecutableTask ::
  "('s, 'w) Env \<Rightarrow> TaskExecInfo \<Rightarrow> ('s, 'w) Manager \<Rightarrow> ('s, 'w) Manager Iter" where
  "handleExecutableTask env task m =
     (let (canAlloc', tasksNeedFree) = canAlloc env (slotManager m) (Task task) in
      if length tasksNeedFree > 0 then Break (cancelTaskExecutors tasksNeedFree m)
      else if \<not> canAlloc' then Continue (emit [Log Debug ''no enough slots to run task''] m)
      else Continue (startTaskExecutor env (Task task) m))"

fun handleExecutableTasks ::
  "('s, 'w) Env \<Rightarrow> TaskExecInfo list \<Rightarrow> ('s, 'w) Manager \<Rightarrow> ('s, 'w) Manager" where
  "handleExecutableTasks env [] m = m"
| "handleExecutableTasks env (task # taskInfos) m =
     (case handleExecutableTask env task m of
        Break m' \<Rightarrow> m'
      | Continue m' \<Rightarrow> handleExecutableTasks env taskInfos m')"

text \<open>The loop of \<^verbatim>\<open>handleTasks\<close> over the fetched tasks, collecting \<^verbatim>\<open>executableTasks\<close>.\<close>

fun handleTasks_loop ::
  "('s, 'w) Env \<Rightarrow> TaskExecInfo list \<Rightarrow> TaskExecInfo list \<Rightarrow> ('s, 'w) Manager
     \<Rightarrow> TaskExecInfo list \<times> ('s, 'w) Manager" where
  "handleTasks_loop env [] executableTasks m = (executableTasks, m)"
| "handleTasks_loop env (task # tasks) executableTasks m =
     (if State (Task task) = TaskStateRunning \<or> State (Task task) = TaskStateReverting then
        let m1 = (if State (Task task) = TaskStateReverting
                  then cancelRunningSubtaskOf (ID (Task task)) m else m)
        in if \<not> isExecutorStarted m1 (ID (Task task))
           then handleTasks_loop env tasks (executableTasks @ [task]) m1
           else handleTasks_loop env tasks executableTasks m1
      else if State (Task task) = TaskStatePausing then
        (case handlePausingTask env (ID (Task task)) m of
           (Some err, m1) \<Rightarrow> handleTasks_loop env tasks executableTasks (logErr err m1)
         | (None, m1) \<Rightarrow> handleTasks_loop env tasks executableTasks m1)
      else handleTasks_loop env tasks executableTasks m)"

definition handleTasks :: "('s, 'w) Env \<Rightarrow> ('s, 'w) Manager \<Rightarrow> ('s, 'w) Manager" where
  "handleTasks env m =
     (let (res, w) = GetTaskExecInfoByExecID env (id_m m) (world m);
          m0 = (emit [TaskTable_GetTaskExecInfoByExecID (id_m m)] m)\<lparr>world := w\<rparr>
      in case res of
           Inl err \<Rightarrow> logErr err m0
         | Inr tasks \<Rightarrow>
             let (executableTasks, m1) = handleTasks_loop env tasks [] m0
             in if length executableTasks > 0
                then handleExecutableTasks env executableTasks m1
                else m1)"

text \<open>One tick of \<^verbatim>\<open>recoverMetaLoop\<close>: an error of \<^verbatim>\<open>recoverMeta\<close> is logged.\<close>

definition recoverMetaTick :: "('s, 'w) Env \<Rightarrow> ('s, 'w) Manager \<Rightarrow> ('s, 'w) Manager" where
  "recoverMetaTick env m =
     (case recoverMeta env m of
        (Some err, m') \<Rightarrow> logErr err m'
      | (None, m') \<Rightarrow> m')"

section \<open>Observing the loops\<close>

text \<open>
  The state in which the loop of \<^verbatim>\<open>handleExecutableTasks\<close> arrives at the candidate at
  position \<open>i\<close> of its list (at the end of the list when \<open>i\<close> is its length); there is none
  when the loop was left before.
\<close>

fun candidateState ::
  "('s, 'w) Env \<Rightarrow> TaskExecInfo list \<Rightarrow> nat \<Rightarrow> ('s, 'w) Manager \<Rightarrow> ('s, 'w) Manager option" where
  "candidateState env taskInfos 0 m = Some m"
| "candidateState env [] (Suc i) m = None"
| "candidateState env (task # taskInfos) (Suc i) m =
     (case handleExecutableTask env task m of
        Break m' \<Rightarrow> None
      | Continue m' \<Rightarrow> candidateState env taskInfos i m')"

text \<open>
  The start candidates found so far and the state with which the loop of \<^verbatim>\<open>handleTasks\<close>
  arrives at the fetched task at position \<open>i\<close> (at the end of the list when \<open>i\<close> is its
  length). This loop is never left early.
\<close>

definition fetchedTaskState ::
  "('s, 'w) Env \<Rightarrow> TaskExecInfo list \<Rightarrow> nat \<Rightarrow> ('s, 'w) Manager
     \<Rightarrow> TaskExecInfo list \<times> ('s, 'w) Manager" where
  "fetchedTaskState env tasks i m = handleTasks_loop env (take i tasks) [] m"

text \<open>
  The error variable and the state with which the loop of \<^verbatim>\<open>recoverMeta\<close>, started at
  counter \<open>i\<close>, arrives at its head after \<open>k\<close> more failed attempts; there is none when the
  loop was left before.
\<close>

fun afterAttempts ::
  "('s, 'w) Env \<Rightarrow> nat \<Rightarrow> nat \<Rightarrow> error option \<Rightarrow> ('s, 'w) Manager
     \<Rightarrow> (error option \<times> ('s, 'w) Manager) option" where
  "afterAttempts env 0 i err m = Some (err, m)"
| "afterAttempts env (Suc k) i err m =
     (if i < retrySQLTimes then
        (case recoverMetaAttempt env i m of
           Return r m' \<Rightarrow> None
         | Retry e m' \<Rightarrow> afterAttempts env k (i + 1) (Some e) m')
      else None)"

fun isRecoverMetaCall :: "Event \<Rightarrow> bool" where
  "isRecoverMetaCall (TaskTable_RecoverMeta ident scope) = True"
| "isRecoverMetaCall e = False"

fun isSleep :: "Event \<Rightarrow> bool" where
  "isSleep (Time_Sleep d) = True"
| "isSleep e = False"

section \<open>The Manager over time\<close>

text \<open>
  The states a Manager can be in, from a first state on: the two loops tick, a launched
  unit of work comes back and leaves \<^verbatim>\<open>executorWG\<close>, \<^verbatim>\<open>Start\<close> and \<^verbatim>\<open>Stop\<close> are called,
  and the outside world moves on its own. Each of these is one step; a step is taken
  whenever its operation can be, which allows more runs than the program has.
\<close>

inductive reachable ::
  "('s, 'w) Env \<Rightarrow> ('s, 'w) Manager \<Rightarrow> ('s, 'w) Manager \<Rightarrow> bool"
  for env :: "('s, 'w) Env" and m0 :: "('s, 'w) Manager" where
  first: "reachable env m0 m0"
| started: "reachable env m0 m \<Longrightarrow> reachable env m0 (snd (Start m))"
| round: "reachable env m0 m \<Longrightarrow> reachable env m0 (handleTasks env m)"
| recover: "reachable env m0 m \<Longrightarrow> reachable env m0 (recoverMetaTick env m)"
| unit_done:
    "reachable env m0 m \<Longrightarrow> (task, executor) \<in> set (executorWG m) \<Longrightarrow>
     RunWithLog env task executor m = Some m' \<Longrightarrow> reachable env m0 m'"
| stopped: "reachable env m0 m \<Longrightarrow> Stop env m = Some m' \<Longrightarrow> reachable env m0 m'"
| outside: "reachable env m0 m \<Longrightarrow> reachable env m0 (m\<lparr>world := w\<rparr>)"







section \<open>A slot manager and an environment to run the Manager in\<close>

text \<open>
  Modelled from the spec: \<^verbatim>\<open>slotManager\<close> (\<^verbatim>\<open>newSlotManager\<close>, \<^verbatim>\<open>canAlloc\<close>, \<^verbatim>\<open>alloc\<close>,
  \<^verbatim>\<open>free\<close>) is not part of the sources at hand. The spec's ledger holds the total capacity
  and the reservations of the live tasks. \<^verbatim>\<open>canAlloc\<close> admits when idle capacity covers
  the need; otherwise it scans the reserved tasks of lower priority than the candidate,
  least important first, and accumulates their reservations until freed plus idle covers
  the need, returning that prefix; when there is no such prefix it denies. In the spec's
  scenario a task of priority 1 has lower priority than one of priority 2. \<^verbatim>\<open>free\<close> of an
  id without a reservation changes nothing.
\<close>

record slots =
  capacity :: int
  reserved :: "Task list"

definition slots_new :: "int \<Rightarrow> slots" where
  "slots_new n = \<lparr>capacity = n, reserved = []\<rparr>"

fun slots_accumulate :: "Task list \<Rightarrow> int \<Rightarrow> int \<Rightarrow> int \<Rightarrow> Task list \<Rightarrow> Task list option" where
  "slots_accumulate [] freed idle need acc = None"
| "slots_accumulate (t # ts) freed idle need acc =
     (if freed + Concurrency t + idle \<ge> need then Some (acc @ [t])
      else slots_accumulate ts (freed + Concurrency t) idle need (acc @ [t]))"

definition slots_canAlloc :: "slots \<Rightarrow> Task \<Rightarrow> bool \<times> Task list" where
  "slots_canAlloc s task =
     (let need = Concurrency task;
          idle = capacity s - sum_list (map Concurrency (reserved s))
      in if idle \<ge> need then (True, [])
         else (case slots_accumulate
                      (sort_key Priority (filter (\<lambda>t. Priority t < Priority task) (reserved s)))
                      0 idle need [] of
                 Some evict \<Rightarrow> (False, evict)
               | None \<Rightarrow> (False, [])))"

definition slots_alloc :: "slots \<Rightarrow> Task \<Rightarrow> slots" where
  "slots_alloc s task = s\<lparr>reserved := reserved s @ [task]\<rparr>"

definition slots_free :: "slots \<Rightarrow> int \<Rightarrow> slots" where
  "slots_free s taskID = s\<lparr>reserved := filter (\<lambda>t. ID t \<noteq> taskID) (reserved s)\<rparr>"

text \<open>
  An outside world to run the Manager in: what the next fetch answers, how many calls of
  \<^verbatim>\<open>RecoverMeta\<close> will still fail, whether the context is canceled, whether the
  registry refuses writes, and what the registry and the executors have received so far.
\<close>

record World =
  fetch :: "error + TaskExecInfo list"
  failures :: nat
  ctxErr :: "error option"
  writeErr :: "error option"
  received :: "Event list"

text \<open>
  An executor of the example world: \<^verbatim>\<open>Init\<close> answers \<open>initErr\<close>, every error is
  retryable or none is, the run comes back as \<open>outcome\<close> says, and the executor notes
  each signal it receives.
\<close>

definition exampleExecutor ::
  "error option \<Rightarrow> bool \<Rightarrow> RunOutcome option \<Rightarrow> Task \<Rightarrow> World TaskExecutor" where
  "exampleExecutor initErr retryable outcome task =
     \<lparr>GetTask = task,
      Init = (\<lambda>w. (initErr, w)),
      Run = (\<lambda>w. case outcome of None \<Rightarrow> None | Some out \<Rightarrow> Some (out, w)),
      Cancel = (\<lambda>w. w\<lparr>received := received w @ [Executor_Cancel (ID task)]\<rparr>),
      CancelRunningSubtask =
        (\<lambda>w. w\<lparr>received := received w @ [Executor_CancelRunningSubtask (ID task)]\<rparr>),
      Close = (\<lambda>w. w\<lparr>received := received w @ [Executor_Close (ID task)]\<rparr>),
      IsRetryableError = (\<lambda>e. retryable)\<rparr>"

definition exampleFactory :: "string \<Rightarrow> (string \<Rightarrow> Task \<Rightarrow> World TaskExecutor) option" where
  "exampleFactory ty =
     (if ty = ''import'' then Some (\<lambda>ident. exampleExecutor None False (Some Returned))
      else if ty = ''panics'' then Some (\<lambda>ident. exampleExecutor None False (Some Panicked))
      else if ty = ''hangs'' then Some (\<lambda>ident. exampleExecutor None False None)
      else if ty = ''flaky'' then
        Some (\<lambda>ident. exampleExecutor (Some (Err ''try again'')) True (Some Returned))
      else if ty = ''broken'' then
        Some (\<lambda>ident. exampleExecutor (Some (Err ''bad meta'')) False (Some Returned))
      else None)"

definition exampleEnv :: "(slots, World) Env" where
  "exampleEnv =
     \<lparr>newSlotManager = slots_new,
      canAlloc = slots_canAlloc,
      alloc = slots_alloc,
      free = slots_free,
      GetTaskExecutorFactory = exampleFactory,
      GetTaskExecInfoByExecID = (\<lambda>ident w. (fetch w, w)),
      PauseSubtasks = (\<lambda>ident taskID w.
         (writeErr w, w\<lparr>received := received w @ [TaskTable_PauseSubtasks ident taskID]\<rparr>)),
      FailSubtask = (\<lambda>ident taskID err w.
         (writeErr w, w\<lparr>received := received w @ [TaskTable_FailSubtask ident taskID err]\<rparr>)),
      RecoverMeta = (\<lambda>ident scope w.
         if failures w = 0 then (None, w)
         else (Some (Err ''registry unreachable''), w\<lparr>failures := failures w - 1\<rparr>)),
      TiDBServiceScope = (\<lambda>w. []),
      ctx_Err = ctxErr,
      ctx_cancel = (\<lambda>w. w\<lparr>ctxErr := Some (Err ''context canceled'')\<rparr>),
      time_Sleep = (\<lambda>d w. w)\<rparr>"

definition exampleWorld :: World where
  "exampleWorld =
     \<lparr>fetch = Inr [], failures = 0, ctxErr = None, writeErr = None, received = []\<rparr>"

definition exampleTask :: "int \<Rightarrow> string \<Rightarrow> TaskState \<Rightarrow> int \<Rightarrow> int \<Rightarrow> Task" where
  "exampleTask i ty st c p = \<lparr>ID = i, Type = ty, State = st, Concurrency = c, Priority = p\<rparr>"

definition exampleManager :: "(slots, World) Manager" where
  "exampleManager =
     \<lparr>id_m = '':4000'', taskExecutors = Map.empty, slotManager = slots_new 8,
      totalCPU = 8, totalMem = 1024, executorWG = [], wg = [], world = exampleWorld,
      trace = []\<rparr>"

section \<open>Basic facts\<close>

lemma emit_fields [simp]:
  "trace (emit es m) = trace m @ es"
  "taskExecutors (emit es m) = taskExecutors m"
  "slotManager (emit es m) = slotManager m"
  "executorWG (emit es m) = executorWG m"
  "wg (emit es m) = wg m"
  "world (emit es m) = world m"
  "id_m (emit es m) = id_m m"
  "totalCPU (emit es m) = totalCPU m"
  "totalMem (emit es m) = totalMem m"
  by (simp_all add: emit_def)

lemmas example_defs =
  exampleEnv_def exampleManager_def exampleWorld_def exampleTask_def exampleFactory_def
  exampleExecutor_def slots_new_def slots_canAlloc_def slots_alloc_def slots_free_def

lemma logErrAndPersist_retryable:
  assumes "IsRetryableError e err"
  shows "logErrAndPersist env err taskID (Some e) m =
           emit [Log Error ''task manager met error'', Log Error ''met retryable err''] m"
  using assms by (simp add: logErrAndPersist_def logErr_def emit_def)

lemma logErrAndPersist_persist:
  assumes "(case taskExecutor of None \<Rightarrow> True | Some e \<Rightarrow> \<not> IsRetryableError e err)"
      and "FailSubtask env (id_m m) taskID err (world m) = (err1, w)"
  shows "logErrAndPersist env err taskID taskExecutor m =
           (emit ([Log Error ''task manager met error'', TaskTable_FailSubtask (id_m m) taskID err]
                  @ (if err1 \<noteq> None then [Log Error ''update to subtask failed''] else [])
                  @ [Log Error ''update error to subtask'']) m)\<lparr>world := w\<rparr>"
  using assms by (cases taskExecutor) (simp_all add: logErrAndPersist_def logErr_def emit_def)

lemma startTaskExecutor_no_factory:
  assumes "GetTaskExecutorFactory env (Type task) = None"
      and "FailSubtask env (id_m m) (ID task) (TaskTypeNotFound (Type task)) (world m) = (err1, w)"
  shows "startTaskExecutor env task m =
           (emit ([Log Error ''task manager met error'',
                   TaskTable_FailSubtask (id_m m) (ID task) (TaskTypeNotFound (Type task))]
                  @ (if err1 \<noteq> None then [Log Error ''update to subtask failed''] else [])
                  @ [Log Error ''update error to subtask'']) m)\<lparr>world := w\<rparr>"
  using assms by (simp add: startTaskExecutor_def logErrAndPersist_persist)

lemma startTaskExecutor_init_fatal:
  assumes "GetTaskExecutorFactory env (Type task) = Some factory"
      and "Init (factory (id_m m) task) (world m) = (Some e, w0)"
      and "\<not> IsRetryableError (factory (id_m m) task) e"
      and "FailSubtask env (id_m m) (ID task) e w0 = (err1, w)"
  shows "startTaskExecutor env task m =
           (emit ([Executor_Init (ID (GetTask (factory (id_m m) task))),
                   Log Error ''task manager met error'',
                   TaskTable_FailSubtask (id_m m) (ID task) e]
                  @ (if err1 \<noteq> None then [Log Error ''update to subtask failed''] else [])
                  @ [Log Error ''update error to subtask'']) m)\<lparr>world := w\<rparr>"
  using assms
  by (simp add: startTaskExecutor_def Let_def
      logErrAndPersist_persist [where ?err1.0 = err1 and w = w] emit_def)

lemma startTaskExecutor_init_retryable:
  assumes "GetTaskExecutorFactory env (Type task) = Some factory"
      and "Init (factory (id_m m) task) (world m) = (Some e, w0)"
      and "IsRetryableError (factory (id_m m) task) e"
  shows "startTaskExecutor env task m =
           (emit [Executor_Init (ID (GetTask (factory (id_m m) task))),
                  Log Error ''task manager met error'',
                  Log Error ''met retryable err''] m)\<lparr>world := w0\<rparr>"
  using assms
  by (simp add: startTaskExecutor_def Let_def logErrAndPersist_retryable emit_def)

lemma startTaskExecutor_started:
  assumes "GetTaskExecutorFactory env (Type task) = Some factory"
      and "Init (factory (id_m m) task) (world m) = (None, w0)"
  shows "startTaskExecutor env task m =
           m\<lparr>taskExecutors :=
                (taskExecutors m)(ID (GetTask (factory (id_m m) task)) \<mapsto> factory (id_m m) task),
             slotManager := alloc env (slotManager m) task,
             executorWG := executorWG m @ [(task, factory (id_m m) task)],
             world := w0,
             trace := trace m @
               [Executor_Init (ID (GetTask (factory (id_m m) task))),
                Mu_Lock, TaskExecutors_store (ID (GetTask (factory (id_m m) task))), Mu_Unlock,
                SlotManager_alloc (ID task),
                Log Info ''task executor started'',
                ExecutorWG_RunWithLog (ID task)]\<rparr>"
  using assms
  by (simp add: startTaskExecutor_def Let_def addTaskExecutor_def emit_def)

section \<open>Start\<close>

text \<open>
  C10. \<^verbatim>\<open>Start\<close> never fails: on every Manager it returns nil, and what it does is log
  one line and hand exactly the two loops, the reconciliation loop and then the identity
  recovery loop, to \<^verbatim>\<open>wg\<close>. Executors, reservations and the outside world are untouched.
\<close>

theorem Start_returns_nil_and_launches_two_loops:
  "fst (Start m) = None
   \<and> trace (snd (Start m)) =
       trace m @ [Log Info ''task executor manager start'',
                  WG_Run handleTasksLoop, WG_Run recoverMetaLoop]
   \<and> wg (snd (Start m)) = wg m @ [handleTasksLoop, recoverMetaLoop]
   \<and> taskExecutors (snd (Start m)) = taskExecutors m
   \<and> executorWG (snd (Start m)) = executorWG m
   \<and> slotManager (snd (Start m)) = slotManager m
   \<and> world (snd (Start m)) = world m"
  by (simp add: Start_def Let_def)

section \<open>A failed fetch\<close>

text \<open>
  C9. When \<^verbatim>\<open>GetTaskExecInfoByExecID\<close> returns an error, the round is the fetch and one
  logged error: the state after it is the state before it with these two events added to
  the trace (and the outside world as the fetch left it). No executor is signalled, the
  registry gets no pause or failure request, nothing is started, and the executor set,
  the reservations and the launched units are what they were.
\<close>

theorem handleTasks_fetch_error_does_nothing:
  assumes "GetTaskExecInfoByExecID env (id_m m) (world m) = (Inl err, w)"
  shows "handleTasks env m =
           m\<lparr>world := w,
             trace := trace m @ [TaskTable_GetTaskExecInfoByExecID (id_m m),
                                 Log Error ''task manager met error'']\<rparr>"
  using assms by (simp add: handleTasks_def logErr_def emit_def)

theorem handleTasks_fetch_error_does_nothing_witness:
  "GetTaskExecInfoByExecID exampleEnv (id_m exampleManager)
      (world (exampleManager\<lparr>world := exampleWorld\<lparr>fetch := Inl (Err ''connection lost'')\<rparr>\<rparr>))
     = (Inl (Err ''connection lost''), exampleWorld\<lparr>fetch := Inl (Err ''connection lost'')\<rparr>)
   \<and> trace (handleTasks exampleEnv
        (exampleManager\<lparr>world := exampleWorld\<lparr>fetch := Inl (Err ''connection lost'')\<rparr>\<rparr>))
     = [TaskTable_GetTaskExecInfoByExecID '':4000'', Log Error ''task manager met error'']
   \<and> taskExecutors (handleTasks exampleEnv
        (exampleManager\<lparr>world := exampleWorld\<lparr>fetch := Inl (Err ''connection lost'')\<rparr>\<rparr>))
     = Map.empty"
  using handleTasks_fetch_error_does_nothing [of exampleEnv
      "exampleManager\<lparr>world := exampleWorld\<lparr>fetch := Inl (Err ''connection lost'')\<rparr>\<rparr>"
      "Err ''connection lost''" "exampleWorld\<lparr>fetch := Inl (Err ''connection lost'')\<rparr>"]
  by (simp add: example_defs)

section \<open>Executor startup failures\<close>

text \<open>
  C5. The three ways \<^verbatim>\<open>startTaskExecutor\<close> fails. Without a factory for the task's type,
  and when \<^verbatim>\<open>Init\<close> returns an error the executor does not call retryable, the error is
  logged and \<^verbatim>\<open>FailSubtask\<close> is called for the task with that error (a refusal of that
  write is logged too). When \<^verbatim>\<open>Init\<close> returns an error the executor calls retryable, the
  error is logged twice and the registry is not called. In all three the state is the old
  one but for the trace and the outside world: no executor is stored, no slot is
  allocated, no unit is launched.
\<close>

theorem startTaskExecutor_failure:
  "(GetTaskExecutorFactory env (Type task) = None \<and>
    FailSubtask env (id_m m) (ID task) (TaskTypeNotFound (Type task)) (world m) = (err1, w) \<longrightarrow>
      startTaskExecutor env task m =
        (emit ([Log Error ''task manager met error'',
                TaskTable_FailSubtask (id_m m) (ID task) (TaskTypeNotFound (Type task))]
               @ (if err1 \<noteq> None then [Log Error ''update to subtask failed''] else [])
               @ [Log Error ''update error to subtask'']) m)\<lparr>world := w\<rparr>)
   \<and> (GetTaskExecutorFactory env (Type task) = Some factory \<and>
      Init (factory (id_m m) task) (world m) = (Some e, w0) \<and>
      \<not> IsRetryableError (factory (id_m m) task) e \<and>
      FailSubtask env (id_m m) (ID task) e w0 = (err1, w) \<longrightarrow>
        startTaskExecutor env task m =
          (emit ([Executor_Init (ID (GetTask (factory (id_m m) task))),
                  Log Error ''task manager met error'',
                  TaskTable_FailSubtask (id_m m) (ID task) e]
                 @ (if err1 \<noteq> None then [Log Error ''update to subtask failed''] else [])
                 @ [Log Error ''update error to subtask'']) m)\<lparr>world := w\<rparr>)
   \<and> (GetTaskExecutorFactory env (Type task) = Some factory \<and>
      Init (factory (id_m m) task) (world m) = (Some e, w0) \<and>
      IsRetryableError (factory (id_m m) task) e \<longrightarrow>
        startTaskExecutor env task m =
          (emit [Executor_Init (ID (GetTask (factory (id_m m) task))),
                 Log Error ''task manager met error'',
                 Log Error ''met retryable err''] m)\<lparr>world := w0\<rparr>)
   \<and> (GetTaskExecutorFactory env (Type task) = None \<or>
      (GetTaskExecutorFactory env (Type task) = Some factory \<and>
       fst (Init (factory (id_m m) task) (world m)) \<noteq> None) \<longrightarrow>
        taskExecutors (startTaskExecutor env task m) = taskExecutors m \<and>
        slotManager (startTaskExecutor env task m) = slotManager m \<and>
        executorWG (startTaskExecutor env task m) = executorWG m)"
proof (intro conjI impI)
  assume "GetTaskExecutorFactory env (Type task) = None \<and>
    FailSubtask env (id_m m) (ID task) (TaskTypeNotFound (Type task)) (world m) = (err1, w)"
  then show "startTaskExecutor env task m =
        (emit ([Log Error ''task manager met error'',
                TaskTable_FailSubtask (id_m m) (ID task) (TaskTypeNotFound (Type task))]
               @ (if err1 \<noteq> None then [Log Error ''update to subtask failed''] else [])
               @ [Log Error ''update error to subtask'']) m)\<lparr>world := w\<rparr>"
    by (simp add: startTaskExecutor_no_factory)
next
  assume "GetTaskExecutorFactory env (Type task) = Some factory \<and>
      Init (factory (id_m m) task) (world m) = (Some e, w0) \<and>
      \<not> IsRetryableError (factory (id_m m) task) e \<and>
      FailSubtask env (id_m m) (ID task) e w0 = (err1, w)"
  then show "startTaskExecutor env task m =
          (emit ([Executor_Init (ID (GetTask (factory (id_m m) task))),
                  Log Error ''task manager met error'',
                  TaskTable_FailSubtask (id_m m) (ID task) e]
                 @ (if err1 \<noteq> None then [Log Error ''update to subtask failed''] else [])
                 @ [Log Error ''update error to subtask'']) m)\<lparr>world := w\<rparr>"
    using startTaskExecutor_init_fatal [of env task factory m e w0 err1 w] by simp
next
  assume "GetTaskExecutorFactory env (Type task) = Some factory \<and>
      Init (factory (id_m m) task) (world m) = (Some e, w0) \<and>
      IsRetryableError (factory (id_m m) task) e"
  then show "startTaskExecutor env task m =
          (emit [Executor_Init (ID (GetTask (factory (id_m m) task))),
                 Log Error ''task manager met error'',
                 Log Error ''met retryable err''] m)\<lparr>world := w0\<rparr>"
    using startTaskExecutor_init_retryable [of env task factory m e w0] by simp
next
  assume a: "GetTaskExecutorFactory env (Type task) = None \<or>
      (GetTaskExecutorFactory env (Type task) = Some factory \<and>
       fst (Init (factory (id_m m) task) (world m)) \<noteq> None)"
  have frame: "taskExecutors (startTaskExecutor env task m) = taskExecutors m \<and>
        slotManager (startTaskExecutor env task m) = slotManager m \<and>
        executorWG (startTaskExecutor env task m) = executorWG m"
  proof (cases "GetTaskExecutorFactory env (Type task)")
    case None
    obtain err1' w' where
      "FailSubtask env (id_m m) (ID task) (TaskTypeNotFound (Type task)) (world m) = (err1', w')"
      by (cases "FailSubtask env (id_m m) (ID task) (TaskTypeNotFound (Type task)) (world m)")
    with None show ?thesis by (simp add: startTaskExecutor_no_factory)
  next
    case (Some f)
    with a have f: "f = factory" and i: "fst (Init (factory (id_m m) task) (world m)) \<noteq> None"
      by auto
    from i obtain e' w0' where init: "Init (factory (id_m m) task) (world m) = (Some e', w0')"
      by (cases "Init (factory (id_m m) task) (world m)") auto
    show ?thesis
    proof (cases "IsRetryableError (factory (id_m m) task) e'")
      case True
      with Some f init show ?thesis by (simp add: startTaskExecutor_init_retryable)
    next
      case False
      obtain err1' w' where "FailSubtask env (id_m m) (ID task) e' w0' = (err1', w')"
        by (cases "FailSubtask env (id_m m) (ID task) e' w0'")
      with False Some f init show ?thesis
        using startTaskExecutor_init_fatal [of env task factory m e' w0' err1' w'] by simp
    qed
  qed
  from frame show "taskExecutors (startTaskExecutor env task m) = taskExecutors m" by simp
  from frame show "slotManager (startTaskExecutor env task m) = slotManager m" by simp
  from frame show "executorWG (startTaskExecutor env task m) = executorWG m" by simp
qed

theorem startTaskExecutor_failure_witness:
  "trace (startTaskExecutor exampleEnv (exampleTask 7 ''unknown'' TaskStateRunning 2 1)
            exampleManager)
     = [Log Error ''task manager met error'',
        TaskTable_FailSubtask '':4000'' 7 (TaskTypeNotFound ''unknown''),
        Log Error ''update error to subtask'']
   \<and> trace (startTaskExecutor exampleEnv (exampleTask 7 ''broken'' TaskStateRunning 2 1)
            exampleManager)
     = [Executor_Init 7, Log Error ''task manager met error'',
        TaskTable_FailSubtask '':4000'' 7 (Err ''bad meta''),
        Log Error ''update error to subtask'']
   \<and> trace (startTaskExecutor exampleEnv (exampleTask 7 ''flaky'' TaskStateRunning 2 1)
            exampleManager)
     = [Executor_Init 7, Log Error ''task manager met error'', Log Error ''met retryable err'']
   \<and> taskExecutors (startTaskExecutor exampleEnv (exampleTask 7 ''flaky'' TaskStateRunning 2 1)
            exampleManager) = Map.empty
   \<and> reserved (slotManager (startTaskExecutor exampleEnv
        (exampleTask 7 ''broken'' TaskStateRunning 2 1) exampleManager)) = []
   \<and> received (world (startTaskExecutor exampleEnv
        (exampleTask 7 ''unknown'' TaskStateRunning 2 1) exampleManager))
     = [TaskTable_FailSubtask '':4000'' 7 (TaskTypeNotFound ''unknown'')]
   \<and> received (world (startTaskExecutor exampleEnv
        (exampleTask 7 ''broken'' TaskStateRunning 2 1) exampleManager))
     = [TaskTable_FailSubtask '':4000'' 7 (Err ''bad meta'')]
   \<and> received (world (startTaskExecutor exampleEnv
        (exampleTask 7 ''flaky'' TaskStateRunning 2 1) exampleManager)) = []"
  using
    startTaskExecutor_failure [of exampleEnv "exampleTask 7 ''unknown'' TaskStateRunning 2 1"
      exampleManager None
      "exampleWorld\<lparr>received :=
         [TaskTable_FailSubtask '':4000'' 7 (TaskTypeNotFound ''unknown'')]\<rparr>"
      "\<lambda>ident. exampleExecutor None False (Some Returned)"
      "Err ''bad meta''" exampleWorld]
    startTaskExecutor_failure [of exampleEnv "exampleTask 7 ''broken'' TaskStateRunning 2 1"
      exampleManager None
      "exampleWorld\<lparr>received := [TaskTable_FailSubtask '':4000'' 7 (Err ''bad meta'')]\<rparr>"
      "\<lambda>ident. exampleExecutor (Some (Err ''bad meta'')) False (Some Returned)"
      "Err ''bad meta''" exampleWorld]
    startTaskExecutor_failure [of exampleEnv "exampleTask 7 ''flaky'' TaskStateRunning 2 1"
      exampleManager None exampleWorld "\<lambda>ident. exampleExecutor (Some (Err ''try again'')) True (Some Returned)"
      "Err ''try again''" exampleWorld]
  by (simp add: example_defs)

section \<open>The cleanup of an executor's unit of work\<close>

lemma executorExit_eq:
  "executorExit env task executor m =
     m\<lparr>slotManager := free env (slotManager m) (ID task),
       taskExecutors := (taskExecutors m)(ID (GetTask executor) := None),
       world := Close executor (world m),
       trace := trace m @
         [Log Info ''task executor exit'',
          SlotManager_free (ID task),
          Mu_Lock, TaskExecutors_delete (ID (GetTask executor)), Mu_Unlock,
          Executor_Close (ID (GetTask executor))]\<rparr>"
  by (simp add: executorExit_def Let_def delTaskExecutor_def emit_def)

lemma executorUnit_eq:
  assumes "Run executor (world m) = Some (outcome, w)"
  shows "executorUnit env task executor m =
           Some (outcome,
             executorExit env task executor
               ((emit [Executor_Run (ID (GetTask executor))] m)\<lparr>world := w\<rparr>))"
  using assms by (cases outcome) (simp_all add: executorUnit_def)

text \<open>
  C2. The unit of work of a started executor is the pair that \<^verbatim>\<open>startTaskExecutor\<close> hands
  to \<^verbatim>\<open>executorWG\<close>. Whenever its \<^verbatim>\<open>Run\<close> comes back, by returning or by panicking, the
  unit ends having done, after the run, exactly this and in this order: log the exit,
  free the task's slots, delete the executor from the executor set (under the lock), close
  the executor; each once.
\<close>

theorem executorUnit_cleanup:
  "(GetTaskExecutorFactory env (Type task) = Some factory \<and>
    Init (factory (id_m m0) task) (world m0) = (None, w0) \<longrightarrow>
      executorWG (startTaskExecutor env task m0) = executorWG m0 @ [(task, factory (id_m m0) task)])
   \<and> (Run executor (world m) = Some (outcome, w) \<longrightarrow>
       executorUnit env task executor m =
         Some (outcome,
           m\<lparr>slotManager := free env (slotManager m) (ID task),
             taskExecutors := (taskExecutors m)(ID (GetTask executor) := None),
             world := Close executor w,
             trace := trace m @
               [Executor_Run (ID (GetTask executor)),
                Log Info ''task executor exit'',
                SlotManager_free (ID task),
                Mu_Lock, TaskExecutors_delete (ID (GetTask executor)), Mu_Unlock,
                Executor_Close (ID (GetTask executor))]\<rparr>))"
  by (simp add: startTaskExecutor_started executorUnit_eq executorExit_eq emit_def)

theorem executorUnit_cleanup_witness:
  "executorWG (startTaskExecutor exampleEnv (exampleTask 3 ''panics'' TaskStateRunning 4 1)
       exampleManager)
     = [(exampleTask 3 ''panics'' TaskStateRunning 4 1,
         exampleExecutor None False (Some Panicked)
           (exampleTask 3 ''panics'' TaskStateRunning 4 1))]
   \<and> map_option (\<lambda>(outcome, m'). (outcome, trace m', taskExecutors m' 3,
                     reserved (slotManager m'), received (world m')))
       (executorUnit exampleEnv (exampleTask 3 ''panics'' TaskStateRunning 4 1)
          (exampleExecutor None False (Some Panicked)
             (exampleTask 3 ''panics'' TaskStateRunning 4 1))
          (startTaskExecutor exampleEnv (exampleTask 3 ''panics'' TaskStateRunning 4 1)
             exampleManager))
     = Some (Panicked,
         [Executor_Init 3, Mu_Lock, TaskExecutors_store 3, Mu_Unlock, SlotManager_alloc 3,
          Log Info ''task executor started'', ExecutorWG_RunWithLog 3,
          Executor_Run 3, Log Info ''task executor exit'', SlotManager_free 3,
          Mu_Lock, TaskExecutors_delete 3, Mu_Unlock, Executor_Close 3],
         None, [], [Executor_Close 3])"
  using executorUnit_cleanup [of exampleEnv "exampleTask 3 ''panics'' TaskStateRunning 4 1"
      "\<lambda>ident. exampleExecutor None False (Some Panicked)" exampleManager exampleWorld
      "exampleExecutor None False (Some Panicked) (exampleTask 3 ''panics'' TaskStateRunning 4 1)"
      "startTaskExecutor exampleEnv (exampleTask 3 ''panics'' TaskStateRunning 4 1) exampleManager"
      Panicked exampleWorld]
  by (simp add: example_defs startTaskExecutor_def Let_def addTaskExecutor_def)

section \<open>Stop\<close>












section \<open>Identity recovery with bounded retries\<close>

declare recoverMeta_loop.simps [simp del]

lemma recoverMetaAttempt_cases:
  assumes "RecoverMeta env (id_m m) (TiDBServiceScope env (world m)) (world m) = (r, w)"
  shows "recoverMetaAttempt env i m =
           (case r of
              None \<Rightarrow>
                Return None
                  ((emit [TaskTable_RecoverMeta (id_m m) (TiDBServiceScope env (world m))] m)
                     \<lparr>world := w\<rparr>)
            | Some e \<Rightarrow>
                (case ctx_Err env w of
                   Some err1 \<Rightarrow>
                     Return (Some err1)
                       ((emit [TaskTable_RecoverMeta (id_m m) (TiDBServiceScope env (world m))] m)
                          \<lparr>world := w\<rparr>)
                 | None \<Rightarrow>
                     Retry e
                       ((emit (TaskTable_RecoverMeta (id_m m) (TiDBServiceScope env (world m))
                               # (if i mod 10 = 0 then [Log Warn ''recover meta failed''] else [])
                               @ [Time_Sleep retrySQLInterval]) m)
                          \<lparr>world := time_Sleep env retrySQLInterval w\<rparr>)))"
  using assms
  by (simp add: recoverMetaAttempt_def Let_def emit_def split: option.splits)

lemma recoverMetaAttempt_Retry:
  assumes "recoverMetaAttempt env i m = Retry e m1"
  shows "\<exists>w. RecoverMeta env (id_m m) (TiDBServiceScope env (world m)) (world m) = (Some e, w)
           \<and> ctx_Err env w = None
           \<and> m1 = (emit (TaskTable_RecoverMeta (id_m m) (TiDBServiceScope env (world m))
                          # (if i mod 10 = 0 then [Log Warn ''recover meta failed''] else [])
                          @ [Time_Sleep retrySQLInterval]) m)
                     \<lparr>world := time_Sleep env retrySQLInterval w\<rparr>"
proof -
  obtain r w where rw: "RecoverMeta env (id_m m) (TiDBServiceScope env (world m)) (world m) = (r, w)"
    by (cases "RecoverMeta env (id_m m) (TiDBServiceScope env (world m)) (world m)")
  from assms recoverMetaAttempt_cases [OF rw, of i] show ?thesis
    using rw by (auto split: option.splits)
qed

lemma afterAttempts_Suc:
  assumes "afterAttempts env (Suc k) i err m = Some (err', m')"
  shows "\<exists>e m1. i < retrySQLTimes \<and> recoverMetaAttempt env i m = Retry e m1
           \<and> afterAttempts env k (Suc i) (Some e) m1 = Some (err', m')"
  using assms by (auto split: if_splits Attempt.splits)

lemma recoverMeta_loop_afterAttempts:
  "afterAttempts env k i err m = Some (err', m') \<Longrightarrow>
   recoverMeta_loop env i err m = recoverMeta_loop env (i + k) err' m'"
proof (induction k arbitrary: i err m)
  case 0
  then show ?case by simp
next
  case (Suc k)
  from afterAttempts_Suc [OF Suc.prems] obtain e m1 where
    i: "i < retrySQLTimes" and a: "recoverMetaAttempt env i m = Retry e m1"
    and r: "afterAttempts env k (Suc i) (Some e) m1 = Some (err', m')"
    by blast
  have "recoverMeta_loop env i err m = recoverMeta_loop env (Suc i) (Some e) m1"
    using i a by (subst recoverMeta_loop.simps) simp
  also have "\<dots> = recoverMeta_loop env (Suc i + k) err' m'"
    by (rule Suc.IH [OF r])
  finally show ?case by simp
qed

lemma afterAttempts_bound:
  "afterAttempts env k i err m = Some (err', m') \<Longrightarrow> i \<le> retrySQLTimes \<Longrightarrow>
   i + k \<le> retrySQLTimes"
proof (induction k arbitrary: i err m)
  case 0
  then show ?case by simp
next
  case (Suc k)
  from afterAttempts_Suc [OF Suc.prems(1)] obtain e m1 where
    i: "i < retrySQLTimes" and
    r: "afterAttempts env k (Suc i) (Some e) m1 = Some (err', m')"
    by blast
  from Suc.IH [OF r] i show ?case by simp
qed

lemma afterAttempts_trace:
  "afterAttempts env k i err m = Some (err', m') \<Longrightarrow>
   (\<exists>scopes. length scopes = k \<and>
      trace m' = trace m @
        concat (map (\<lambda>(j, scope).
                  TaskTable_RecoverMeta (id_m m) scope
                  # (if j mod 10 = 0 then [Log Warn ''recover meta failed''] else [])
                  @ [Time_Sleep retrySQLInterval])
                (zip [i..<i + k] scopes)))
   \<and> id_m m' = id_m m \<and> taskExecutors m' = taskExecutors m
   \<and> slotManager m' = slotManager m \<and> executorWG m' = executorWG m"
proof (induction k arbitrary: i err m)
  case 0
  then show ?case by simp
next
  case (Suc k)
  from afterAttempts_Suc [OF Suc.prems] obtain e m1 where
    a: "recoverMetaAttempt env i m = Retry e m1"
    and r: "afterAttempts env k (Suc i) (Some e) m1 = Some (err', m')"
    by blast
  from recoverMetaAttempt_Retry [OF a] obtain w where
    m1: "m1 = (emit (TaskTable_RecoverMeta (id_m m) (TiDBServiceScope env (world m))
                     # (if i mod 10 = 0 then [Log Warn ''recover meta failed''] else [])
                     @ [Time_Sleep retrySQLInterval]) m)
                \<lparr>world := time_Sleep env retrySQLInterval w\<rparr>"
    by blast
  from Suc.IH [OF r] obtain scopes where
    len: "length scopes = k" and
    tr: "trace m' = trace m1 @
        concat (map (\<lambda>(j, scope).
                  TaskTable_RecoverMeta (id_m m1) scope
                  # (if j mod 10 = 0 then [Log Warn ''recover meta failed''] else [])
                  @ [Time_Sleep retrySQLInterval])
                (zip [Suc i..<Suc i + k] scopes))" and
    fr: "id_m m' = id_m m1" "taskExecutors m' = taskExecutors m1"
        "slotManager m' = slotManager m1" "executorWG m' = executorWG m1"
    by blast
  have upt: "[i..<i + Suc k] = i # [Suc i..<Suc i + k]"
    by (simp add: upt_rec)
  have "length (TiDBServiceScope env (world m) # scopes) = Suc k \<and>
      trace m' = trace m @
        concat (map (\<lambda>(j, scope).
                  TaskTable_RecoverMeta (id_m m) scope
                  # (if j mod 10 = 0 then [Log Warn ''recover meta failed''] else [])
                  @ [Time_Sleep retrySQLInterval])
                (zip [i..<i + Suc k] (TiDBServiceScope env (world m) # scopes)))"
    using len tr by (simp only: upt) (simp add: m1)
  then have "\<exists>scopes. length scopes = Suc k \<and>
      trace m' = trace m @
        concat (map (\<lambda>(j, scope).
                  TaskTable_RecoverMeta (id_m m) scope
                  # (if j mod 10 = 0 then [Log Warn ''recover meta failed''] else [])
                  @ [Time_Sleep retrySQLInterval])
                (zip [i..<i + Suc k] scopes))"
    by blast
  with fr show ?case by (simp add: m1)
qed

lemma recoverMeta_loop_calls:
  "length (filter isRecoverMetaCall (trace (snd (recoverMeta_loop env i err m))))
     \<le> length (filter isRecoverMetaCall (trace m)) + (retrySQLTimes - i)"
proof (induction env i err m rule: recoverMeta_loop.induct)
  case (1 env i err m)
  show ?case
  proof (cases "i < retrySQLTimes")
    case False
    then show ?thesis by (subst recoverMeta_loop.simps) simp
  next
    case True
    obtain r w where rw:
      "RecoverMeta env (id_m m) (TiDBServiceScope env (world m)) (world m) = (r, w)"
      by (cases "RecoverMeta env (id_m m) (TiDBServiceScope env (world m)) (world m)")
    show ?thesis
    proof (cases "recoverMetaAttempt env i m")
      case (Return r' m')
      with recoverMetaAttempt_cases [OF rw, of i] True show ?thesis
        by (subst recoverMeta_loop.simps) (auto split: option.splits)
    next
      case (Retry e m')
      from recoverMetaAttempt_Retry [OF Retry] obtain w' where
        m': "m' = (emit (TaskTable_RecoverMeta (id_m m) (TiDBServiceScope env (world m))
                     # (if i mod 10 = 0 then [Log Warn ''recover meta failed''] else [])
                     @ [Time_Sleep retrySQLInterval]) m)
                \<lparr>world := time_Sleep env retrySQLInterval w'\<rparr>"
        by blast
      have "length (filter isRecoverMetaCall (trace (snd (recoverMeta_loop env (i + 1) (Some e) m'))))
              \<le> length (filter isRecoverMetaCall (trace m')) + (retrySQLTimes - (i + 1))"
        by (rule "1.IH" [OF True Retry])
      moreover have "length (filter isRecoverMetaCall (trace m'))
                       = length (filter isRecoverMetaCall (trace m)) + 1"
        by (simp add: m')
      ultimately show ?thesis
        using True Retry by (subst recoverMeta_loop.simps) simp
    qed
  qed
qed

lemma afterAttempts_numeral:
  "afterAttempts env (numeral n) i err m =
     (if i < retrySQLTimes then
        (case recoverMetaAttempt env i m of
           Return r m' \<Rightarrow> None
         | Retry e m' \<Rightarrow> afterAttempts env (pred_numeral n) (i + 1) (Some e) m')
      else None)"
  by (simp add: numeral_eq_Suc)

text \<open>
  C8. One call of \<^verbatim>\<open>recoverMeta\<close> calls \<^verbatim>\<open>RecoverMeta\<close> at most 30 times. Let the first \<open>k\<close>
  attempts have failed with the context alive (so the loop is at its head again, in state
  \<open>mk\<close>). Then \<open>k\<close> is at most 30, and up to there the trace is, per failed attempt, the
  call, a warning at every tenth attempt, and a sleep of 500 ms. If the next attempt
  succeeds, \<^verbatim>\<open>recoverMeta\<close> returns nil at once, for every \<open>k\<close> below 30, so also for a
  success at the 30th attempt after 29 failures. If the next attempt fails and the context
  is then canceled, the context's error is returned. If the 30th attempt fails with the
  context alive, it is slept on as well and its error, the last attempt's, is returned.
\<close>

theorem recoverMeta_bounded_retry:
  "length (filter isRecoverMetaCall (trace (snd (recoverMeta env m))))
     \<le> length (filter isRecoverMetaCall (trace m)) + 30
   \<and> (afterAttempts env k 0 None m = Some (err, mk) \<longrightarrow>
        k \<le> 30
        \<and> (\<exists>scopes. length scopes = k \<and>
              trace mk = trace m @
                concat (map (\<lambda>(j, scope).
                          TaskTable_RecoverMeta (id_m m) scope
                          # (if j mod 10 = 0 then [Log Warn ''recover meta failed''] else [])
                          @ [Time_Sleep 500])
                        (zip [0..<k] scopes)))
        \<and> (k < 30 \<and>
            RecoverMeta env (id_m mk) (TiDBServiceScope env (world mk)) (world mk) = (None, w) \<longrightarrow>
              recoverMeta env m =
                (None,
                 (emit [TaskTable_RecoverMeta (id_m mk) (TiDBServiceScope env (world mk))] mk)
                   \<lparr>world := w\<rparr>))
        \<and> (k < 30 \<and>
            RecoverMeta env (id_m mk) (TiDBServiceScope env (world mk)) (world mk) = (Some e, w) \<and>
            ctx_Err env w = Some err1 \<longrightarrow>
              recoverMeta env m =
                (Some err1,
                 (emit [TaskTable_RecoverMeta (id_m mk) (TiDBServiceScope env (world mk))] mk)
                   \<lparr>world := w\<rparr>))
        \<and> (k = 29 \<and>
            RecoverMeta env (id_m mk) (TiDBServiceScope env (world mk)) (world mk) = (Some e, w) \<and>
            ctx_Err env w = None \<longrightarrow>
              recoverMeta env m =
                (Some e,
                 (emit [TaskTable_RecoverMeta (id_m mk) (TiDBServiceScope env (world mk)),
                        Time_Sleep 500] mk)
                   \<lparr>world := time_Sleep env 500 w\<rparr>)))"
proof (intro conjI impI)
  show "length (filter isRecoverMetaCall (trace (snd (recoverMeta env m))))
          \<le> length (filter isRecoverMetaCall (trace m)) + 30"
    using recoverMeta_loop_calls [of env 0 None m]
    by (simp add: recoverMeta_def retrySQLTimes_def)
next
  assume a: "afterAttempts env k 0 None m = Some (err, mk)"
  from afterAttempts_bound [OF a] show "k \<le> 30"
    by (simp add: retrySQLTimes_def)
  from afterAttempts_trace [OF a]
  show "\<exists>scopes. length scopes = k \<and>
          trace mk = trace m @
            concat (map (\<lambda>(j, scope).
                      TaskTable_RecoverMeta (id_m m) scope
                      # (if j mod 10 = 0 then [Log Warn ''recover meta failed''] else [])
                      @ [Time_Sleep 500])
                    (zip [0..<k] scopes))"
    by (simp add: retrySQLInterval_def)
  have loop: "recoverMeta env m = recoverMeta_loop env k err mk"
    using recoverMeta_loop_afterAttempts [OF a] by (simp add: recoverMeta_def)
  {
    assume h: "k < 30 \<and>
      RecoverMeta env (id_m mk) (TiDBServiceScope env (world mk)) (world mk) = (None, w)"
    then have "recoverMetaAttempt env k mk =
        Return None
          ((emit [TaskTable_RecoverMeta (id_m mk) (TiDBServiceScope env (world mk))] mk)
             \<lparr>world := w\<rparr>)"
      using recoverMetaAttempt_cases [of env mk None w k] by simp
    with h show "recoverMeta env m =
        (None,
         (emit [TaskTable_RecoverMeta (id_m mk) (TiDBServiceScope env (world mk))] mk)
           \<lparr>world := w\<rparr>)"
      unfolding loop by (subst recoverMeta_loop.simps) (simp add: retrySQLTimes_def)
  }
  {
    assume h: "k < 30 \<and>
      RecoverMeta env (id_m mk) (TiDBServiceScope env (world mk)) (world mk) = (Some e, w) \<and>
      ctx_Err env w = Some err1"
    then have "recoverMetaAttempt env k mk =
        Return (Some err1)
          ((emit [TaskTable_RecoverMeta (id_m mk) (TiDBServiceScope env (world mk))] mk)
             \<lparr>world := w\<rparr>)"
      using recoverMetaAttempt_cases [of env mk "Some e" w k] by simp
    with h show "recoverMeta env m =
        (Some err1,
         (emit [TaskTable_RecoverMeta (id_m mk) (TiDBServiceScope env (world mk))] mk)
           \<lparr>world := w\<rparr>)"
      unfolding loop by (subst recoverMeta_loop.simps) (simp add: retrySQLTimes_def)
  }
  {
    assume h: "k = 29 \<and>
      RecoverMeta env (id_m mk) (TiDBServiceScope env (world mk)) (world mk) = (Some e, w) \<and>
      ctx_Err env w = None"
    then have att: "recoverMetaAttempt env k mk =
        Retry e
          ((emit [TaskTable_RecoverMeta (id_m mk) (TiDBServiceScope env (world mk)),
                  Time_Sleep 500] mk)
             \<lparr>world := time_Sleep env 500 w\<rparr>)"
      using recoverMetaAttempt_cases [of env mk "Some e" w k]
      by (simp add: retrySQLInterval_def)
    have "recoverMeta_loop env k err mk =
        recoverMeta_loop env (k + 1) (Some e)
          ((emit [TaskTable_RecoverMeta (id_m mk) (TiDBServiceScope env (world mk)),
                  Time_Sleep 500] mk)
             \<lparr>world := time_Sleep env 500 w\<rparr>)"
      using h att by (subst recoverMeta_loop.simps) (simp add: retrySQLTimes_def)
    also have "\<dots> =
        (Some e,
         (emit [TaskTable_RecoverMeta (id_m mk) (TiDBServiceScope env (world mk)),
                Time_Sleep 500] mk)
           \<lparr>world := time_Sleep env 500 w\<rparr>)"
      using h by (subst recoverMeta_loop.simps) (simp add: retrySQLTimes_def)
    finally show "recoverMeta env m =
        (Some e,
         (emit [TaskTable_RecoverMeta (id_m mk) (TiDBServiceScope env (world mk)),
                Time_Sleep 500] mk)
           \<lparr>world := time_Sleep env 500 w\<rparr>)"
      unfolding loop .
  }
qed

theorem recoverMeta_bounded_retry_witness:
  "afterAttempts exampleEnv 29 0 None
      (exampleManager\<lparr>world := exampleWorld\<lparr>failures := 29\<rparr>\<rparr>) \<noteq> None
   \<and> fst (recoverMeta exampleEnv (exampleManager\<lparr>world := exampleWorld\<lparr>failures := 29\<rparr>\<rparr>))
       = None
   \<and> length (filter isRecoverMetaCall
        (trace (snd (recoverMeta exampleEnv
           (exampleManager\<lparr>world := exampleWorld\<lparr>failures := 29\<rparr>\<rparr>))))) = 30"
proof -
  have "\<exists>err mk. afterAttempts exampleEnv 29 0 None
           (exampleManager\<lparr>world := exampleWorld\<lparr>failures := 29\<rparr>\<rparr>) = Some (err, mk)
         \<and> failures (world mk) = 0
         \<and> length (filter isRecoverMetaCall (trace mk)) = 29"
    by (simp add: afterAttempts_numeral recoverMetaAttempt_def Let_def retrySQLTimes_def
        retrySQLInterval_def example_defs)
  then obtain err mk where
    a: "afterAttempts exampleEnv 29 0 None
          (exampleManager\<lparr>world := exampleWorld\<lparr>failures := 29\<rparr>\<rparr>) = Some (err, mk)"
    and f: "failures (world mk) = 0"
    and n: "length (filter isRecoverMetaCall (trace mk)) = 29"
    by blast
  from f have r: "RecoverMeta exampleEnv (id_m mk) (TiDBServiceScope exampleEnv (world mk)) (world mk)
      = (None, world mk)"
    by (simp add: exampleEnv_def)
  from recoverMeta_bounded_retry [of exampleEnv
      "exampleManager\<lparr>world := exampleWorld\<lparr>failures := 29\<rparr>\<rparr>" 29 err mk "world mk"] a r n
  show ?thesis by simp
qed

section \<open>Admission: preemption and denial\<close>

lemma cancelTaskExecutors_eq:
  "cancelTaskExecutors tasks m =
     m\<lparr>world := fold (\<lambda>t w. case taskExecutors m (ID t) of
                               Some executor \<Rightarrow> Cancel executor w | None \<Rightarrow> w) tasks (world m),
       trace := trace m @
         concat (map (\<lambda>t. Log Info ''cancelTasks''
                       # (case taskExecutors m (ID t) of
                            Some executor \<Rightarrow> [Executor_Cancel (ID (GetTask executor))]
                          | None \<Rightarrow> [])) tasks)\<rparr>"
proof (induction tasks arbitrary: m)
  case Nil
  then show ?case by simp
next
  case (Cons t tasks)
  show ?case
    by (cases "taskExecutors m (ID t)") (simp_all add: Cons.IH Let_def emit_def)
qed

lemma handleExecutableTask_preempt:
  assumes "canAlloc env (slotManager m) (Task task) = (ok, tasksNeedFree)"
      and "tasksNeedFree \<noteq> []"
  shows "handleExecutableTask env task m = Break (cancelTaskExecutors tasksNeedFree m)"
  using assms by (simp add: handleExecutableTask_def)

lemma handleExecutableTask_deny:
  assumes "canAlloc env (slotManager m) (Task task) = (False, [])"
  shows "handleExecutableTask env task m =
           Continue (emit [Log Debug ''no enough slots to run task''] m)"
  using assms by (simp add: handleExecutableTask_def)

lemma handleExecutableTask_admit:
  assumes "canAlloc env (slotManager m) (Task task) = (True, [])"
  shows "handleExecutableTask env task m = Continue (startTaskExecutor env (Task task) m)"
  using assms by (simp add: handleExecutableTask_def)

lemma candidateState_Suc:
  "candidateState env taskInfos i m = Some mi \<Longrightarrow> i < length taskInfos \<Longrightarrow>
   candidateState env taskInfos (Suc i) m =
     (case handleExecutableTask env (taskInfos ! i) mi of
        Break m' \<Rightarrow> None
      | Continue m' \<Rightarrow> Some m')"
proof (induction env taskInfos i m rule: candidateState.induct)
  case (1 env taskInfos m)
  then show ?case
    by (cases taskInfos) (simp_all split: Iter.splits)
next
  case (2 env i m)
  then show ?case by simp
next
  case (3 env task taskInfos i m)
  then show ?case
    by (cases "handleExecutableTask env task m") simp_all
qed

lemma handleExecutableTasks_from:
  "candidateState env taskInfos i m = Some mi \<Longrightarrow>
   handleExecutableTasks env taskInfos m = handleExecutableTasks env (drop i taskInfos) mi"
proof (induction env taskInfos i m rule: candidateState.induct)
  case (1 env taskInfos m)
  then show ?case by simp
next
  case (2 env i m)
  then show ?case by simp
next
  case (3 env task taskInfos i m)
  then show ?case
    by (cases "handleExecutableTask env task m") simp_all
qed

text \<open>
  C1. Let the loop of \<^verbatim>\<open>handleExecutableTasks\<close> arrive at the candidate at position \<open>i\<close> in
  state \<open>mi\<close>, and let \<^verbatim>\<open>canAlloc\<close> answer there with a non-empty list of tasks to free.
  Then the round ends with \<^verbatim>\<open>cancelTaskExecutors\<close> of that list: the state after the
  round is \<open>mi\<close> with, for each task of the list in order, the log line in the trace and
  \<^verbatim>\<open>Cancel\<close> of the executor stored for its id (if there is one) applied to the outside
  world and noted in the trace, and nothing else. The executor set, the slots and the
  launched units stay as they were in \<open>mi\<close>: neither this candidate nor any later one is
  started.
\<close>

theorem preemption_halts_round:
  assumes "candidateState env taskInfos i m = Some mi"
      and "i < length taskInfos"
      and "canAlloc env (slotManager mi) (Task (taskInfos ! i)) = (ok, tasksNeedFree)"
      and "tasksNeedFree \<noteq> []"
  shows "handleExecutableTasks env taskInfos m = cancelTaskExecutors tasksNeedFree mi
    \<and> handleExecutableTasks env taskInfos m =
        mi\<lparr>world := fold (\<lambda>t w. case taskExecutors mi (ID t) of
                                     Some executor \<Rightarrow> Cancel executor w
                                   | None \<Rightarrow> w) tasksNeedFree (world mi),
           trace := trace mi @
             concat (map (\<lambda>t. Log Info ''cancelTasks''
                           # (case taskExecutors mi (ID t) of
                                Some executor \<Rightarrow> [Executor_Cancel (ID (GetTask executor))]
                              | None \<Rightarrow> [])) tasksNeedFree)\<rparr>
    \<and> world (handleExecutableTasks env taskInfos m) =
        fold (\<lambda>t w. case taskExecutors mi (ID t) of
                        Some executor \<Rightarrow> Cancel executor w
                      | None \<Rightarrow> w) tasksNeedFree (world mi)
    \<and> trace (handleExecutableTasks env taskInfos m) =
        trace mi @
          concat (map (\<lambda>t. Log Info ''cancelTasks''
                        # (case taskExecutors mi (ID t) of
                             Some executor \<Rightarrow> [Executor_Cancel (ID (GetTask executor))]
                           | None \<Rightarrow> [])) tasksNeedFree)
    \<and> taskExecutors (handleExecutableTasks env taskInfos m) = taskExecutors mi
    \<and> slotManager (handleExecutableTasks env taskInfos m) = slotManager mi
    \<and> executorWG (handleExecutableTasks env taskInfos m) = executorWG mi"
proof -
  have d: "drop i taskInfos = taskInfos ! i # drop (Suc i) taskInfos"
    using assms(2) by (simp add: Cons_nth_drop_Suc)
  have "handleExecutableTasks env taskInfos m = handleExecutableTasks env (drop i taskInfos) mi"
    by (rule handleExecutableTasks_from [OF assms(1)])
  also have "\<dots> = cancelTaskExecutors tasksNeedFree mi"
    by (simp add: d handleExecutableTask_preempt [OF assms(3,4)])
  finally have e: "handleExecutableTasks env taskInfos m = cancelTaskExecutors tasksNeedFree mi" .
  show ?thesis
    unfolding e by (simp add: cancelTaskExecutors_eq [of tasksNeedFree mi])
qed

theorem preemption_halts_round_witness:
  "candidateState exampleEnv
      [\<lparr>Task = (exampleTask 4 ''import'' TaskStateRunning 1 5)\<rparr>,
       \<lparr>Task = (exampleTask 2 ''import'' TaskStateRunning 4 2)\<rparr>,
       \<lparr>Task = (exampleTask 3 ''import'' TaskStateRunning 1 3)\<rparr>] 1
      (startTaskExecutor exampleEnv (exampleTask 1 ''import'' TaskStateRunning 6 1) exampleManager)
     = Some (startTaskExecutor exampleEnv (exampleTask 4 ''import'' TaskStateRunning 1 5)
        (startTaskExecutor exampleEnv (exampleTask 1 ''import'' TaskStateRunning 6 1) exampleManager))
   \<and> canAlloc exampleEnv (slotManager (startTaskExecutor exampleEnv (exampleTask 4 ''import'' TaskStateRunning 1 5)
        (startTaskExecutor exampleEnv (exampleTask 1 ''import'' TaskStateRunning 6 1) exampleManager)))
       (exampleTask 2 ''import'' TaskStateRunning 4 2)
     = (False, [(exampleTask 1 ''import'' TaskStateRunning 6 1)])
   \<and> trace (handleExecutableTasks exampleEnv
        [\<lparr>Task = (exampleTask 4 ''import'' TaskStateRunning 1 5)\<rparr>,
       \<lparr>Task = (exampleTask 2 ''import'' TaskStateRunning 4 2)\<rparr>,
       \<lparr>Task = (exampleTask 3 ''import'' TaskStateRunning 1 3)\<rparr>]
        (startTaskExecutor exampleEnv (exampleTask 1 ''import'' TaskStateRunning 6 1) exampleManager))
     = [Executor_Init 1, Mu_Lock, TaskExecutors_store 1, Mu_Unlock, SlotManager_alloc 1,
        Log Info ''task executor started'', ExecutorWG_RunWithLog 1,
        Executor_Init 4, Mu_Lock, TaskExecutors_store 4, Mu_Unlock, SlotManager_alloc 4,
        Log Info ''task executor started'', ExecutorWG_RunWithLog 4,
        Log Info ''cancelTasks'', Executor_Cancel 1]
   \<and> received (world (handleExecutableTasks exampleEnv
        [\<lparr>Task = (exampleTask 4 ''import'' TaskStateRunning 1 5)\<rparr>,
       \<lparr>Task = (exampleTask 2 ''import'' TaskStateRunning 4 2)\<rparr>,
       \<lparr>Task = (exampleTask 3 ''import'' TaskStateRunning 1 3)\<rparr>]
        (startTaskExecutor exampleEnv (exampleTask 1 ''import'' TaskStateRunning 6 1) exampleManager)))
     = [Executor_Cancel 1]
   \<and> map ID (reserved (slotManager (handleExecutableTasks exampleEnv
        [\<lparr>Task = (exampleTask 4 ''import'' TaskStateRunning 1 5)\<rparr>,
       \<lparr>Task = (exampleTask 2 ''import'' TaskStateRunning 4 2)\<rparr>,
       \<lparr>Task = (exampleTask 3 ''import'' TaskStateRunning 1 3)\<rparr>]
        (startTaskExecutor exampleEnv (exampleTask 1 ''import'' TaskStateRunning 6 1) exampleManager)))) = [1, 4]"
  using preemption_halts_round [of exampleEnv
      "[\<lparr>Task = (exampleTask 4 ''import'' TaskStateRunning 1 5)\<rparr>,
       \<lparr>Task = (exampleTask 2 ''import'' TaskStateRunning 4 2)\<rparr>,
       \<lparr>Task = (exampleTask 3 ''import'' TaskStateRunning 1 3)\<rparr>]" 1
      "(startTaskExecutor exampleEnv (exampleTask 1 ''import'' TaskStateRunning 6 1) exampleManager)"
      "(startTaskExecutor exampleEnv (exampleTask 4 ''import'' TaskStateRunning 1 5)
        (startTaskExecutor exampleEnv (exampleTask 1 ''import'' TaskStateRunning 6 1) exampleManager))" False
      "[(exampleTask 1 ''import'' TaskStateRunning 6 1)]"]
  by (simp add: example_defs startTaskExecutor_def handleExecutableTask_def Let_def
      addTaskExecutor_def)

text \<open>
  C4. Let the loop arrive at the candidate at position \<open>i\<close> in state \<open>mi\<close>, and let
  \<^verbatim>\<open>canAlloc\<close> answer there with a denial and nothing to free. Then the candidate is
  skipped with one debug line, and the loop goes on to the rest of the list with the
  executor set and the slots of \<open>mi\<close>. If the slot manager admits the next candidate there,
  that candidate is handed to \<^verbatim>\<open>startTaskExecutor\<close> in the same round.
\<close>

theorem denial_continues_with_the_rest:
  assumes "candidateState env taskInfos i m = Some mi"
      and "i < length taskInfos"
      and "canAlloc env (slotManager mi) (Task (taskInfos ! i)) = (False, [])"
  shows "candidateState env taskInfos (Suc i) m =
           Some (emit [Log Debug ''no enough slots to run task''] mi)
    \<and> handleExecutableTasks env taskInfos m =
        handleExecutableTasks env (drop (Suc i) taskInfos)
          (emit [Log Debug ''no enough slots to run task''] mi)
    \<and> (Suc i < length taskInfos \<and>
        canAlloc env (slotManager mi) (Task (taskInfos ! Suc i)) = (True, []) \<longrightarrow>
          candidateState env taskInfos (Suc (Suc i)) m =
            Some (startTaskExecutor env (Task (taskInfos ! Suc i))
                    (emit [Log Debug ''no enough slots to run task''] mi)))"
proof -
  have s: "candidateState env taskInfos (Suc i) m =
             Some (emit [Log Debug ''no enough slots to run task''] mi)"
    using candidateState_Suc [OF assms(1,2)] handleExecutableTask_deny [OF assms(3)] by simp
  have r: "handleExecutableTasks env taskInfos m =
        handleExecutableTasks env (drop (Suc i) taskInfos)
          (emit [Log Debug ''no enough slots to run task''] mi)"
    by (rule handleExecutableTasks_from [OF s])
  have n: "candidateState env taskInfos (Suc (Suc i)) m =
            Some (startTaskExecutor env (Task (taskInfos ! Suc i))
                    (emit [Log Debug ''no enough slots to run task''] mi))"
    if "Suc i < length taskInfos"
      and "canAlloc env (slotManager mi) (Task (taskInfos ! Suc i)) = (True, [])"
    using candidateState_Suc [OF s that(1)]
      handleExecutableTask_admit [of env "emit [Log Debug ''no enough slots to run task''] mi"
        "taskInfos ! Suc i"] that(2)
    by simp
  from s r n show ?thesis by blast
qed

theorem denial_continues_with_the_rest_witness:
  "canAlloc exampleEnv (slotManager (startTaskExecutor exampleEnv (exampleTask 1 ''import'' TaskStateRunning 6 9) exampleManager))
      (exampleTask 2 ''import'' TaskStateRunning 4 2) = (False, [])
   \<and> canAlloc exampleEnv (slotManager (startTaskExecutor exampleEnv (exampleTask 1 ''import'' TaskStateRunning 6 9) exampleManager))
      (exampleTask 3 ''import'' TaskStateRunning 2 1) = (True, [])
   \<and> trace (handleExecutableTasks exampleEnv
        [\<lparr>Task = (exampleTask 2 ''import'' TaskStateRunning 4 2)\<rparr>,
       \<lparr>Task = (exampleTask 3 ''import'' TaskStateRunning 2 1)\<rparr>]
        (startTaskExecutor exampleEnv (exampleTask 1 ''import'' TaskStateRunning 6 9) exampleManager))
     = [Executor_Init 1, Mu_Lock, TaskExecutors_store 1, Mu_Unlock, SlotManager_alloc 1,
        Log Info ''task executor started'', ExecutorWG_RunWithLog 1,
        Log Debug ''no enough slots to run task'',
        Executor_Init 3, Mu_Lock, TaskExecutors_store 3, Mu_Unlock, SlotManager_alloc 3,
        Log Info ''task executor started'', ExecutorWG_RunWithLog 3]
   \<and> map ID (reserved (slotManager (handleExecutableTasks exampleEnv
        [\<lparr>Task = (exampleTask 2 ''import'' TaskStateRunning 4 2)\<rparr>,
       \<lparr>Task = (exampleTask 3 ''import'' TaskStateRunning 2 1)\<rparr>]
        (startTaskExecutor exampleEnv (exampleTask 1 ''import'' TaskStateRunning 6 9) exampleManager)))) = [1, 3]"
  using denial_continues_with_the_rest [of exampleEnv
      "[\<lparr>Task = (exampleTask 2 ''import'' TaskStateRunning 4 2)\<rparr>,
       \<lparr>Task = (exampleTask 3 ''import'' TaskStateRunning 2 1)\<rparr>]" 0
      "(startTaskExecutor exampleEnv (exampleTask 1 ''import'' TaskStateRunning 6 9) exampleManager)"
      "(startTaskExecutor exampleEnv (exampleTask 1 ''import'' TaskStateRunning 6 9) exampleManager)"]
  by (simp add: example_defs startTaskExecutor_def handleExecutableTask_def Let_def
      addTaskExecutor_def)

section \<open>Reverting and pausing tasks\<close>

lemma logErrAndPersist_frame:
  "taskExecutors (logErrAndPersist env err taskID taskExecutor m) = taskExecutors m
   \<and> slotManager (logErrAndPersist env err taskID taskExecutor m) = slotManager m
   \<and> executorWG (logErrAndPersist env err taskID taskExecutor m) = executorWG m
   \<and> id_m (logErrAndPersist env err taskID taskExecutor m) = id_m m
   \<and> (\<exists>es. trace (logErrAndPersist env err taskID taskExecutor m) = trace m @ es)"
  by (simp add: logErrAndPersist_def logErr_def Let_def split: prod.splits option.splits)

lemma startTaskExecutor_frame:
  "id_m (startTaskExecutor env task m) = id_m m
   \<and> (\<exists>es. trace (startTaskExecutor env task m) = trace m @ es)"
proof (cases "GetTaskExecutorFactory env (Type task)")
  case None
  then show ?thesis
    using logErrAndPersist_frame [of env "TaskTypeNotFound (Type task)" "ID task" None m]
    by (simp add: startTaskExecutor_def)
next
  case (Some factory)
  obtain r w0 where i: "Init (factory (id_m m) task) (world m) = (r, w0)"
    by (cases "Init (factory (id_m m) task) (world m)")
  show ?thesis
  proof (cases r)
    case None
    with Some i show ?thesis by (simp add: startTaskExecutor_started)
  next
    case (Some e)
    with \<open>GetTaskExecutorFactory env (Type task) = Some factory\<close> i show ?thesis
      using logErrAndPersist_frame [of env e "ID task" "Some (factory (id_m m) task)"
          "(emit [Executor_Init (ID (GetTask (factory (id_m m) task)))] m)\<lparr>world := w0\<rparr>"]
      by (auto simp: startTaskExecutor_def Let_def)
  qed
qed

lemma handleExecutableTask_frame:
  "handleExecutableTask env task m = Break m' \<or> handleExecutableTask env task m = Continue m' \<Longrightarrow>
   id_m m' = id_m m \<and> (\<exists>es. trace m' = trace m @ es)"
  using startTaskExecutor_frame [of env "Task task" m]
  by (auto simp: handleExecutableTask_def cancelTaskExecutors_eq split: prod.splits if_splits)

lemma handleExecutableTasks_frame:
  "id_m (handleExecutableTasks env taskInfos m) = id_m m
   \<and> (\<exists>es. trace (handleExecutableTasks env taskInfos m) = trace m @ es)"
proof (induction taskInfos arbitrary: m)
  case Nil
  then show ?case by simp
next
  case (Cons task taskInfos)
  show ?case
  proof (cases "handleExecutableTask env task m")
    case (Break m')
    with handleExecutableTask_frame [of env task m m'] show ?thesis by simp
  next
    case (Continue m')
    with handleExecutableTask_frame [of env task m m'] Cons.IH [of m'] show ?thesis by auto
  qed
qed

lemma handleTasks_loop_Cons:
  "\<exists>acc' m' es.
     handleTasks_loop env (task # tasks) acc m = handleTasks_loop env tasks acc' m'
     \<and> taskExecutors m' = taskExecutors m \<and> id_m m' = id_m m
     \<and> slotManager m' = slotManager m \<and> executorWG m' = executorWG m
     \<and> trace m' = trace m @ es
     \<and> (State (Task task) = TaskStateReverting \<longrightarrow>
          (\<forall>e. taskExecutors m (ID (Task task)) = Some e \<longrightarrow>
             es = [Log Info ''onCanceledTasks'',
                   Executor_CancelRunningSubtask (ID (GetTask e))]))
     \<and> (State (Task task) = TaskStatePausing \<longrightarrow>
          (\<exists>post. es = Log Info ''handle pausing task''
                     # (case taskExecutors m (ID (Task task)) of
                          Some e \<Rightarrow> [Executor_Cancel (ID (GetTask e))]
                        | None \<Rightarrow> [])
                     @ [TaskTable_PauseSubtasks (id_m m) (ID (Task task))] @ post))"
proof -
  consider (run) "State (Task task) = TaskStateRunning"
    | (rev) "State (Task task) = TaskStateReverting"
    | (pause) "State (Task task) = TaskStatePausing"
    | (other) "State (Task task) \<noteq> TaskStateRunning" "State (Task task) \<noteq> TaskStateReverting"
        "State (Task task) \<noteq> TaskStatePausing"
    by blast
  then show ?thesis
  proof cases
    case run
    then show ?thesis
      by (cases "isExecutorStarted m (ID (Task task))") (simp; blast)+
  next
    case rev
    show ?thesis
    proof (cases "taskExecutors m (ID (Task task))")
      case None
      with rev show ?thesis
        by (simp add: cancelRunningSubtaskOf_def isExecutorStarted_def) blast
    next
      case (Some e)
      with rev show ?thesis
        by (intro exI [of _ acc]
            exI [of _ "(emit [Log Info ''onCanceledTasks'',
                              Executor_CancelRunningSubtask (ID (GetTask e))] m)
                         \<lparr>world := CancelRunningSubtask e (world m)\<rparr>"]
            exI [of _ "[Log Info ''onCanceledTasks'',
                        Executor_CancelRunningSubtask (ID (GetTask e))]"])
          (simp add: cancelRunningSubtaskOf_def isExecutorStarted_def)
    qed
  next
    case pause
    obtain r m1 where h: "handlePausingTask env (ID (Task task)) m = (r, m1)"
      by (cases "handlePausingTask env (ID (Task task)) m")
    then have m1: "taskExecutors m1 = taskExecutors m \<and> id_m m1 = id_m m
        \<and> slotManager m1 = slotManager m \<and> executorWG m1 = executorWG m
        \<and> trace m1 = trace m @ Log Info ''handle pausing task''
             # (case taskExecutors m (ID (Task task)) of
                  Some e \<Rightarrow> [Executor_Cancel (ID (GetTask e))]
                | None \<Rightarrow> [])
             @ [TaskTable_PauseSubtasks (id_m m) (ID (Task task))]"
      by (auto simp: handlePausingTask_def Let_def split: option.splits prod.splits)
    show ?thesis
    proof (cases r)
      case None
      with pause h m1 show ?thesis
        by (intro exI [of _ acc] exI [of _ m1]) simp
    next
      case (Some err)
      with pause h m1 show ?thesis
        by (intro exI [of _ acc] exI [of _ "logErr err m1"]) (simp add: logErr_def)
    qed
  next
    case other
    then show ?thesis
      by (intro exI [of _ acc] exI [of _ m] exI [of _ "[]"]) simp
  qed
qed

lemma handleTasks_loop_frame:
  "taskExecutors (snd (handleTasks_loop env tasks acc m)) = taskExecutors m
   \<and> id_m (snd (handleTasks_loop env tasks acc m)) = id_m m
   \<and> slotManager (snd (handleTasks_loop env tasks acc m)) = slotManager m
   \<and> executorWG (snd (handleTasks_loop env tasks acc m)) = executorWG m
   \<and> (\<exists>es. trace (snd (handleTasks_loop env tasks acc m)) = trace m @ es)"
proof (induction tasks arbitrary: acc m)
  case Nil
  then show ?case by simp
next
  case (Cons task tasks)
  from handleTasks_loop_Cons [of env task tasks acc m] obtain acc' m' es where
    s: "handleTasks_loop env (task # tasks) acc m = handleTasks_loop env tasks acc' m'"
    and f: "taskExecutors m' = taskExecutors m" "id_m m' = id_m m"
      "slotManager m' = slotManager m" "executorWG m' = executorWG m"
      "trace m' = trace m @ es"
    by blast
  from Cons.IH [of acc' m'] f show ?case
    unfolding s by auto
qed

lemma handleTasks_loop_events:
  assumes "task \<in> set tasks"
  shows "(State (Task task) = TaskStateReverting \<longrightarrow>
           (\<forall>e. taskExecutors m (ID (Task task)) = Some e \<longrightarrow>
              (\<exists>pre post. trace (snd (handleTasks_loop env tasks acc m)) =
                 trace m @ pre @ [Log Info ''onCanceledTasks'',
                                  Executor_CancelRunningSubtask (ID (GetTask e))] @ post)))
       \<and> (State (Task task) = TaskStatePausing \<longrightarrow>
           (\<exists>pre post. trace (snd (handleTasks_loop env tasks acc m)) =
              trace m @ pre @ Log Info ''handle pausing task''
                # (case taskExecutors m (ID (Task task)) of
                     Some e \<Rightarrow> [Executor_Cancel (ID (GetTask e))]
                   | None \<Rightarrow> [])
                @ [TaskTable_PauseSubtasks (id_m m) (ID (Task task))] @ post))"
  using assms
proof (induction tasks arbitrary: acc m)
  case Nil
  then show ?case by simp
next
  case (Cons t tasks)
  from handleTasks_loop_Cons [of env t tasks acc m] obtain acc' m' es where
    s: "handleTasks_loop env (t # tasks) acc m = handleTasks_loop env tasks acc' m'"
    and f: "taskExecutors m' = taskExecutors m" "id_m m' = id_m m"
    and tr: "trace m' = trace m @ es"
    and rv: "State (Task t) = TaskStateReverting \<longrightarrow>
          (\<forall>e. taskExecutors m (ID (Task t)) = Some e \<longrightarrow>
             es = [Log Info ''onCanceledTasks'',
                   Executor_CancelRunningSubtask (ID (GetTask e))])"
    and ps: "State (Task t) = TaskStatePausing \<longrightarrow>
          (\<exists>post. es = Log Info ''handle pausing task''
                     # (case taskExecutors m (ID (Task t)) of
                          Some e \<Rightarrow> [Executor_Cancel (ID (GetTask e))]
                        | None \<Rightarrow> [])
                     @ [TaskTable_PauseSubtasks (id_m m) (ID (Task t))] @ post)"
    by blast
  from handleTasks_loop_frame [of env tasks acc' m'] obtain rest where
    rest: "trace (snd (handleTasks_loop env tasks acc' m')) = trace m' @ rest"
    by blast
  show ?case
  proof (cases "task = t")
    case True
    show ?thesis
    proof (intro conjI impI allI)
      fix e
      assume "State (Task task) = TaskStateReverting" "taskExecutors m (ID (Task task)) = Some e"
      with rv True have "es = [Log Info ''onCanceledTasks'',
                   Executor_CancelRunningSubtask (ID (GetTask e))]" by simp
      with rest tr have "trace (snd (handleTasks_loop env (t # tasks) acc m)) =
          trace m @ [] @ [Log Info ''onCanceledTasks'',
                          Executor_CancelRunningSubtask (ID (GetTask e))] @ rest"
        unfolding s by simp
      then show "\<exists>pre post. trace (snd (handleTasks_loop env (t # tasks) acc m)) =
                 trace m @ pre @ [Log Info ''onCanceledTasks'',
                                  Executor_CancelRunningSubtask (ID (GetTask e))] @ post"
        by blast
    next
      assume "State (Task task) = TaskStatePausing"
      with ps True obtain post where
        "es = Log Info ''handle pausing task''
                     # (case taskExecutors m (ID (Task task)) of
                          Some e \<Rightarrow> [Executor_Cancel (ID (GetTask e))]
                        | None \<Rightarrow> [])
                     @ [TaskTable_PauseSubtasks (id_m m) (ID (Task task))] @ post"
        by auto
      with rest tr have "trace (snd (handleTasks_loop env (t # tasks) acc m)) =
          trace m @ [] @ Log Info ''handle pausing task''
                # (case taskExecutors m (ID (Task task)) of
                     Some e \<Rightarrow> [Executor_Cancel (ID (GetTask e))]
                   | None \<Rightarrow> [])
                @ [TaskTable_PauseSubtasks (id_m m) (ID (Task task))] @ (post @ rest)"
        unfolding s by simp
      then show "\<exists>pre post. trace (snd (handleTasks_loop env (t # tasks) acc m)) =
              trace m @ pre @ Log Info ''handle pausing task''
                # (case taskExecutors m (ID (Task task)) of
                     Some e \<Rightarrow> [Executor_Cancel (ID (GetTask e))]
                   | None \<Rightarrow> [])
                @ [TaskTable_PauseSubtasks (id_m m) (ID (Task task))] @ post"
        by blast
    qed
  next
    case False
    with Cons.prems have mem: "task \<in> set tasks" by simp
    note ih = Cons.IH [OF mem, where acc = acc' and m = m']
    show ?thesis
    proof (intro conjI impI allI)
      fix e
      assume "State (Task task) = TaskStateReverting" "taskExecutors m (ID (Task task)) = Some e"
      with ih f obtain pre post where
        "trace (snd (handleTasks_loop env tasks acc' m')) =
           trace m' @ pre @ [Log Info ''onCanceledTasks'',
                             Executor_CancelRunningSubtask (ID (GetTask e))] @ post"
        by auto
      with tr have "trace (snd (handleTasks_loop env (t # tasks) acc m)) =
           trace m @ (es @ pre) @ [Log Info ''onCanceledTasks'',
                             Executor_CancelRunningSubtask (ID (GetTask e))] @ post"
        unfolding s by simp
      then show "\<exists>pre post. trace (snd (handleTasks_loop env (t # tasks) acc m)) =
                 trace m @ pre @ [Log Info ''onCanceledTasks'',
                                  Executor_CancelRunningSubtask (ID (GetTask e))] @ post"
        by blast
    next
      assume "State (Task task) = TaskStatePausing"
      with ih f obtain pre post where
        "trace (snd (handleTasks_loop env tasks acc' m')) =
              trace m' @ pre @ Log Info ''handle pausing task''
                # (case taskExecutors m (ID (Task task)) of
                     Some e \<Rightarrow> [Executor_Cancel (ID (GetTask e))]
                   | None \<Rightarrow> [])
                @ [TaskTable_PauseSubtasks (id_m m) (ID (Task task))] @ post"
        by auto
      with tr have "trace (snd (handleTasks_loop env (t # tasks) acc m)) =
              trace m @ (es @ pre) @ Log Info ''handle pausing task''
                # (case taskExecutors m (ID (Task task)) of
                     Some e \<Rightarrow> [Executor_Cancel (ID (GetTask e))]
                   | None \<Rightarrow> [])
                @ [TaskTable_PauseSubtasks (id_m m) (ID (Task task))] @ post"
        unfolding s by simp
      then show "\<exists>pre post. trace (snd (handleTasks_loop env (t # tasks) acc m)) =
              trace m @ pre @ Log Info ''handle pausing task''
                # (case taskExecutors m (ID (Task task)) of
                     Some e \<Rightarrow> [Executor_Cancel (ID (GetTask e))]
                   | None \<Rightarrow> [])
                @ [TaskTable_PauseSubtasks (id_m m) (ID (Task task))] @ post"
        by blast
    qed
  qed
qed

lemma handleTasks_fetched:
  assumes "GetTaskExecInfoByExecID env (id_m m) (world m) = (Inr tasks, w)"
  shows "\<exists>es. trace (handleTasks env m) =
           trace (snd (handleTasks_loop env tasks []
             ((emit [TaskTable_GetTaskExecInfoByExecID (id_m m)] m)\<lparr>world := w\<rparr>))) @ es"
proof -
  obtain ex m1 where l: "handleTasks_loop env tasks []
      ((emit [TaskTable_GetTaskExecInfoByExecID (id_m m)] m)\<lparr>world := w\<rparr>) = (ex, m1)"
    by (cases "handleTasks_loop env tasks []
      ((emit [TaskTable_GetTaskExecInfoByExecID (id_m m)] m)\<lparr>world := w\<rparr>)")
  from handleExecutableTasks_frame [of env ex m1] assms l show ?thesis
    by (auto simp: handleTasks_def)
qed

lemma handleTasks_loop_append:
  "handleTasks_loop env (xs @ ys) acc m =
     (case handleTasks_loop env xs acc m of (acc', m') \<Rightarrow> handleTasks_loop env ys acc' m')"
proof (induction xs arbitrary: acc m)
  case Nil
  then show ?case by simp
next
  case (Cons x xs)
  show ?case
    by (cases "handlePausingTask env (ID (Task x)) m")
      (simp add: Cons.IH Let_def split: option.splits)
qed

lemma handleTasks_loop_reverting:
  assumes "State (Task task) = TaskStateReverting"
      and "taskExecutors m (ID (Task task)) = Some executor"
  shows "handleTasks_loop env [task] acc m =
           (acc, (emit [Log Info ''onCanceledTasks'',
                        Executor_CancelRunningSubtask (ID (GetTask executor))] m)
                   \<lparr>world := CancelRunningSubtask executor (world m)\<rparr>)"
  using assms by (simp add: cancelRunningSubtaskOf_def isExecutorStarted_def)

lemma handleTasks_loop_pausing:
  assumes "State (Task task) = TaskStatePausing"
      and "PauseSubtasks env (id_m m) (ID (Task task))
             (case taskExecutors m (ID (Task task)) of
                Some e \<Rightarrow> Cancel e (world m) | None \<Rightarrow> world m) = (err, w')"
  shows "handleTasks_loop env [task] acc m =
           (acc, (emit (Log Info ''handle pausing task''
                        # (case taskExecutors m (ID (Task task)) of
                             Some e \<Rightarrow> [Executor_Cancel (ID (GetTask e))]
                           | None \<Rightarrow> [])
                        @ [TaskTable_PauseSubtasks (id_m m) (ID (Task task))]
                        @ (if err \<noteq> None then [Log Error ''task manager met error'']
                           else [])) m)
                   \<lparr>world := w'\<rparr>)"
  using assms
  by (cases "taskExecutors m (ID (Task task))"; cases err)
    (simp_all add: handlePausingTask_def Let_def logErr_def emit_def)

text \<open>
  C3. Let the fetch of a round succeed, and take the fetched task at any position \<open>i\<close>.
  The loop over the fetched tasks arrives at it, with the executor set as it was at the
  start of the round. If the task is reverting and an executor is stored for its id, the
  loop's step at it is exactly: \<^verbatim>\<open>CancelRunningSubtask\<close> of that executor applied to the
  outside world, and the log line and the call noted in the trace. If the task is
  pausing, the step is exactly: \<^verbatim>\<open>Cancel\<close> of the stored executor, when there is one,
  and then in every case \<^verbatim>\<open>PauseSubtasks\<close> for its id applied to the outside world, with
  the calls noted in the trace (and an error of the request logged). These events are
  part of the trace of the whole round. All of this holds for every slot manager, so
  whatever admission decides afterwards.
\<close>

theorem reverting_and_pausing_tasks_are_signalled:
  assumes "GetTaskExecInfoByExecID env (id_m m) (world m) = (Inr tasks, w)"
      and "i < length tasks"
  shows
    "(let m0 = (emit [TaskTable_GetTaskExecInfoByExecID (id_m m)] m)\<lparr>world := w\<rparr>;
          mi = snd (fetchedTaskState env tasks i m0);
          task = Task (tasks ! i)
      in handleTasks_loop env tasks [] m0 =
           (case fetchedTaskState env tasks i m0 of
              (acc, mi) \<Rightarrow> handleTasks_loop env (drop i tasks) acc mi)
         \<and> taskExecutors mi = taskExecutors m
         \<and> (State task = TaskStateReverting \<and> taskExecutors m (ID task) = Some executor \<longrightarrow>
              snd (fetchedTaskState env tasks (Suc i) m0) =
                (emit [Log Info ''onCanceledTasks'',
                       Executor_CancelRunningSubtask (ID (GetTask executor))] mi)
                  \<lparr>world := CancelRunningSubtask executor (world mi)\<rparr>
              \<and> (\<exists>pre post. trace (handleTasks env m) =
                   trace m @ pre @ [Log Info ''onCanceledTasks'',
                                    Executor_CancelRunningSubtask (ID (GetTask executor))]
                     @ post))
         \<and> (State task = TaskStatePausing \<and>
            PauseSubtasks env (id_m m) (ID task)
              (case taskExecutors m (ID task) of
                 Some e \<Rightarrow> Cancel e (world mi) | None \<Rightarrow> world mi) = (err, w') \<longrightarrow>
              snd (fetchedTaskState env tasks (Suc i) m0) =
                (emit (Log Info ''handle pausing task''
                       # (case taskExecutors m (ID task) of
                            Some e \<Rightarrow> [Executor_Cancel (ID (GetTask e))]
                          | None \<Rightarrow> [])
                       @ [TaskTable_PauseSubtasks (id_m m) (ID task)]
                       @ (if err \<noteq> None then [Log Error ''task manager met error'']
                          else [])) mi)
                  \<lparr>world := w'\<rparr>
              \<and> (\<exists>pre post. trace (handleTasks env m) =
                   trace m @ pre @ Log Info ''handle pausing task''
                     # (case taskExecutors m (ID task) of
                          Some e \<Rightarrow> [Executor_Cancel (ID (GetTask e))]
                        | None \<Rightarrow> [])
                     @ [TaskTable_PauseSubtasks (id_m m) (ID task)] @ post)))"
proof -
  let ?m0 = "(emit [TaskTable_GetTaskExecInfoByExecID (id_m m)] m)\<lparr>world := w\<rparr>"
  obtain acc mi where s: "fetchedTaskState env tasks i ?m0 = (acc, mi)"
    by (cases "fetchedTaskState env tasks i ?m0")
  have mi: "taskExecutors mi = taskExecutors m" "id_m mi = id_m m"
    using handleTasks_loop_frame [of env "take i tasks" "[]" ?m0] s
    by (simp_all add: fetchedTaskState_def)
  have arrive: "handleTasks_loop env tasks [] ?m0 = handleTasks_loop env (drop i tasks) acc mi"
    using handleTasks_loop_append [of env "take i tasks" "drop i tasks" "[]" ?m0] s
    by (simp add: fetchedTaskState_def)
  have next_state: "fetchedTaskState env tasks (Suc i) ?m0 =
      handleTasks_loop env [tasks ! i] acc mi"
    using handleTasks_loop_append [of env "take i tasks" "[tasks ! i]" "[]" ?m0] s assms(2)
    by (simp add: fetchedTaskState_def take_Suc_conv_app_nth)
  from handleTasks_fetched [OF assms(1)] obtain es where
    es: "trace (handleTasks env m) = trace (snd (handleTasks_loop env tasks [] ?m0)) @ es"
    by blast
  have mem: "tasks ! i \<in> set tasks"
    using assms(2) by simp
  note ev = handleTasks_loop_events [OF mem, of ?m0 env "[]"]
  have rv: "snd (fetchedTaskState env tasks (Suc i) ?m0) =
                (emit [Log Info ''onCanceledTasks'',
                       Executor_CancelRunningSubtask (ID (GetTask executor))] mi)
                  \<lparr>world := CancelRunningSubtask executor (world mi)\<rparr>
              \<and> (\<exists>pre post. trace (handleTasks env m) =
                   trace m @ pre @ [Log Info ''onCanceledTasks'',
                                    Executor_CancelRunningSubtask (ID (GetTask executor))]
                     @ post)"
    if h: "State (Task (tasks ! i)) = TaskStateReverting"
      "taskExecutors m (ID (Task (tasks ! i))) = Some executor"
  proof
    show "snd (fetchedTaskState env tasks (Suc i) ?m0) =
                (emit [Log Info ''onCanceledTasks'',
                       Executor_CancelRunningSubtask (ID (GetTask executor))] mi)
                  \<lparr>world := CancelRunningSubtask executor (world mi)\<rparr>"
      using handleTasks_loop_reverting
          [where task = "tasks ! i" and m = mi and executor = executor and env = env and acc = acc]
        h mi
      by (simp add: next_state)
    from ev h obtain pre post where
      "trace (snd (handleTasks_loop env tasks [] ?m0)) =
         trace ?m0 @ pre @ [Log Info ''onCanceledTasks'',
                            Executor_CancelRunningSubtask (ID (GetTask executor))] @ post"
      by auto
    with es have "trace (handleTasks env m) =
        trace m @ (TaskTable_GetTaskExecInfoByExecID (id_m m) # pre)
          @ [Log Info ''onCanceledTasks'',
             Executor_CancelRunningSubtask (ID (GetTask executor))] @ (post @ es)"
      by simp
    then show "\<exists>pre post. trace (handleTasks env m) =
               trace m @ pre @ [Log Info ''onCanceledTasks'',
                                Executor_CancelRunningSubtask (ID (GetTask executor))] @ post"
      by blast
  qed
  have ps: "snd (fetchedTaskState env tasks (Suc i) ?m0) =
                (emit (Log Info ''handle pausing task''
                       # (case taskExecutors m (ID (Task (tasks ! i))) of
                            Some e \<Rightarrow> [Executor_Cancel (ID (GetTask e))]
                          | None \<Rightarrow> [])
                       @ [TaskTable_PauseSubtasks (id_m m) (ID (Task (tasks ! i)))]
                       @ (if err \<noteq> None then [Log Error ''task manager met error'']
                          else [])) mi)
                  \<lparr>world := w'\<rparr>
              \<and> (\<exists>pre post. trace (handleTasks env m) =
                   trace m @ pre @ Log Info ''handle pausing task''
                     # (case taskExecutors m (ID (Task (tasks ! i))) of
                          Some e \<Rightarrow> [Executor_Cancel (ID (GetTask e))]
                        | None \<Rightarrow> [])
                     @ [TaskTable_PauseSubtasks (id_m m) (ID (Task (tasks ! i)))] @ post)"
    if h: "State (Task (tasks ! i)) = TaskStatePausing"
      "PauseSubtasks env (id_m m) (ID (Task (tasks ! i)))
              (case taskExecutors m (ID (Task (tasks ! i))) of
                 Some e \<Rightarrow> Cancel e (world mi) | None \<Rightarrow> world mi) = (err, w')"
  proof
    show "snd (fetchedTaskState env tasks (Suc i) ?m0) =
                (emit (Log Info ''handle pausing task''
                       # (case taskExecutors m (ID (Task (tasks ! i))) of
                            Some e \<Rightarrow> [Executor_Cancel (ID (GetTask e))]
                          | None \<Rightarrow> [])
                       @ [TaskTable_PauseSubtasks (id_m m) (ID (Task (tasks ! i)))]
                       @ (if err \<noteq> None then [Log Error ''task manager met error'']
                          else [])) mi)
                  \<lparr>world := w'\<rparr>"
      using handleTasks_loop_pausing
          [where task = "tasks ! i" and env = env and m = mi and err = err and w' = w'
             and acc = acc]
        h mi
      by (simp add: next_state)
    from ev h obtain pre post where
      "trace (snd (handleTasks_loop env tasks [] ?m0)) =
         trace ?m0 @ pre @ Log Info ''handle pausing task''
                 # (case taskExecutors m (ID (Task (tasks ! i))) of
                      Some e \<Rightarrow> [Executor_Cancel (ID (GetTask e))]
                    | None \<Rightarrow> [])
                 @ [TaskTable_PauseSubtasks (id_m m) (ID (Task (tasks ! i)))] @ post"
      by auto
    with es have "trace (handleTasks env m) =
        trace m @ (TaskTable_GetTaskExecInfoByExecID (id_m m) # pre)
          @ Log Info ''handle pausing task''
                 # (case taskExecutors m (ID (Task (tasks ! i))) of
                      Some e \<Rightarrow> [Executor_Cancel (ID (GetTask e))]
                    | None \<Rightarrow> [])
                 @ [TaskTable_PauseSubtasks (id_m m) (ID (Task (tasks ! i)))] @ (post @ es)"
      by simp
    then show "\<exists>pre post. trace (handleTasks env m) =
               trace m @ pre @ Log Info ''handle pausing task''
                 # (case taskExecutors m (ID (Task (tasks ! i))) of
                      Some e \<Rightarrow> [Executor_Cancel (ID (GetTask e))]
                    | None \<Rightarrow> [])
                 @ [TaskTable_PauseSubtasks (id_m m) (ID (Task (tasks ! i)))] @ post"
      by blast
  qed
  from arrive mi rv ps show ?thesis
    unfolding Let_def s by (simp only: snd_conv prod.case) blast
qed

theorem reverting_and_pausing_tasks_are_signalled_witness:
  "taskExecutors ((startTaskExecutor exampleEnv (exampleTask 4 ''import'' TaskStateRunning 1 5)
        (startTaskExecutor exampleEnv (exampleTask 1 ''import'' TaskStateRunning 6 1) exampleManager))
        \<lparr>world := (exampleWorld\<lparr>fetch := Inr [\<lparr>Task = (exampleTask 1 ''import'' TaskStateReverting 6 1)\<rparr>,
            \<lparr>Task = (exampleTask 2 ''import'' TaskStatePausing 2 1)\<rparr>,
            \<lparr>Task = (exampleTask 4 ''import'' TaskStatePausing 1 5)\<rparr>]\<rparr>)\<rparr>) 1 = Some (exampleExecutor None False (Some Returned) (exampleTask 1 ''import'' TaskStateRunning 6 1))
   \<and> taskExecutors ((startTaskExecutor exampleEnv (exampleTask 4 ''import'' TaskStateRunning 1 5)
        (startTaskExecutor exampleEnv (exampleTask 1 ''import'' TaskStateRunning 6 1) exampleManager))
        \<lparr>world := (exampleWorld\<lparr>fetch := Inr [\<lparr>Task = (exampleTask 1 ''import'' TaskStateReverting 6 1)\<rparr>,
            \<lparr>Task = (exampleTask 2 ''import'' TaskStatePausing 2 1)\<rparr>,
            \<lparr>Task = (exampleTask 4 ''import'' TaskStatePausing 1 5)\<rparr>]\<rparr>)\<rparr>) 2 = None
   \<and> taskExecutors ((startTaskExecutor exampleEnv (exampleTask 4 ''import'' TaskStateRunning 1 5)
        (startTaskExecutor exampleEnv (exampleTask 1 ''import'' TaskStateRunning 6 1) exampleManager))
        \<lparr>world := (exampleWorld\<lparr>fetch := Inr [\<lparr>Task = (exampleTask 1 ''import'' TaskStateReverting 6 1)\<rparr>,
            \<lparr>Task = (exampleTask 2 ''import'' TaskStatePausing 2 1)\<rparr>,
            \<lparr>Task = (exampleTask 4 ''import'' TaskStatePausing 1 5)\<rparr>]\<rparr>)\<rparr>) 4 = Some (exampleExecutor None False (Some Returned) (exampleTask 4 ''import'' TaskStateRunning 1 5))
   \<and> received (world (handleTasks exampleEnv ((startTaskExecutor exampleEnv (exampleTask 4 ''import'' TaskStateRunning 1 5)
        (startTaskExecutor exampleEnv (exampleTask 1 ''import'' TaskStateRunning 6 1) exampleManager))
        \<lparr>world := (exampleWorld\<lparr>fetch := Inr [\<lparr>Task = (exampleTask 1 ''import'' TaskStateReverting 6 1)\<rparr>,
            \<lparr>Task = (exampleTask 2 ''import'' TaskStatePausing 2 1)\<rparr>,
            \<lparr>Task = (exampleTask 4 ''import'' TaskStatePausing 1 5)\<rparr>]\<rparr>)\<rparr>)))
     = [Executor_CancelRunningSubtask 1, TaskTable_PauseSubtasks '':4000'' 2,
        Executor_Cancel 4, TaskTable_PauseSubtasks '':4000'' 4]
   \<and> trace (handleTasks exampleEnv ((startTaskExecutor exampleEnv (exampleTask 4 ''import'' TaskStateRunning 1 5)
        (startTaskExecutor exampleEnv (exampleTask 1 ''import'' TaskStateRunning 6 1) exampleManager))
        \<lparr>world := (exampleWorld\<lparr>fetch := Inr [\<lparr>Task = (exampleTask 1 ''import'' TaskStateReverting 6 1)\<rparr>,
            \<lparr>Task = (exampleTask 2 ''import'' TaskStatePausing 2 1)\<rparr>,
            \<lparr>Task = (exampleTask 4 ''import'' TaskStatePausing 1 5)\<rparr>]\<rparr>)\<rparr>))
     = [Executor_Init 1, Mu_Lock, TaskExecutors_store 1, Mu_Unlock, SlotManager_alloc 1,
        Log Info ''task executor started'', ExecutorWG_RunWithLog 1,
        Executor_Init 4, Mu_Lock, TaskExecutors_store 4, Mu_Unlock, SlotManager_alloc 4,
        Log Info ''task executor started'', ExecutorWG_RunWithLog 4,
        TaskTable_GetTaskExecInfoByExecID '':4000'',
        Log Info ''onCanceledTasks'', Executor_CancelRunningSubtask 1,
        Log Info ''handle pausing task'', TaskTable_PauseSubtasks '':4000'' 2,
        Log Info ''handle pausing task'', Executor_Cancel 4,
        TaskTable_PauseSubtasks '':4000'' 4]"
  using
    reverting_and_pausing_tasks_are_signalled
      [where env = exampleEnv
         and m = "((startTaskExecutor exampleEnv (exampleTask 4 ''import'' TaskStateRunning 1 5)
        (startTaskExecutor exampleEnv (exampleTask 1 ''import'' TaskStateRunning 6 1) exampleManager))
        \<lparr>world := (exampleWorld\<lparr>fetch := Inr [\<lparr>Task = (exampleTask 1 ''import'' TaskStateReverting 6 1)\<rparr>,
            \<lparr>Task = (exampleTask 2 ''import'' TaskStatePausing 2 1)\<rparr>,
            \<lparr>Task = (exampleTask 4 ''import'' TaskStatePausing 1 5)\<rparr>]\<rparr>)\<rparr>)"
         and tasks = "[\<lparr>Task = (exampleTask 1 ''import'' TaskStateReverting 6 1)\<rparr>,
            \<lparr>Task = (exampleTask 2 ''import'' TaskStatePausing 2 1)\<rparr>,
            \<lparr>Task = (exampleTask 4 ''import'' TaskStatePausing 1 5)\<rparr>]"
         and w = "(exampleWorld\<lparr>fetch := Inr [\<lparr>Task = (exampleTask 1 ''import'' TaskStateReverting 6 1)\<rparr>,
            \<lparr>Task = (exampleTask 2 ''import'' TaskStatePausing 2 1)\<rparr>,
            \<lparr>Task = (exampleTask 4 ''import'' TaskStatePausing 1 5)\<rparr>]\<rparr>)"
         and i = 0
         and executor = "exampleExecutor None False (Some Returned) (exampleTask 1 ''import'' TaskStateRunning 6 1)"
         and err = None and w' = "(exampleWorld\<lparr>fetch := Inr [\<lparr>Task = (exampleTask 1 ''import'' TaskStateReverting 6 1)\<rparr>,
            \<lparr>Task = (exampleTask 2 ''import'' TaskStatePausing 2 1)\<rparr>,
            \<lparr>Task = (exampleTask 4 ''import'' TaskStatePausing 1 5)\<rparr>]\<rparr>)"]
    reverting_and_pausing_tasks_are_signalled
      [where env = exampleEnv
         and m = "((startTaskExecutor exampleEnv (exampleTask 4 ''import'' TaskStateRunning 1 5)
        (startTaskExecutor exampleEnv (exampleTask 1 ''import'' TaskStateRunning 6 1) exampleManager))
        \<lparr>world := (exampleWorld\<lparr>fetch := Inr [\<lparr>Task = (exampleTask 1 ''import'' TaskStateReverting 6 1)\<rparr>,
            \<lparr>Task = (exampleTask 2 ''import'' TaskStatePausing 2 1)\<rparr>,
            \<lparr>Task = (exampleTask 4 ''import'' TaskStatePausing 1 5)\<rparr>]\<rparr>)\<rparr>)"
         and tasks = "[\<lparr>Task = (exampleTask 1 ''import'' TaskStateReverting 6 1)\<rparr>,
            \<lparr>Task = (exampleTask 2 ''import'' TaskStatePausing 2 1)\<rparr>,
            \<lparr>Task = (exampleTask 4 ''import'' TaskStatePausing 1 5)\<rparr>]"
         and w = "(exampleWorld\<lparr>fetch := Inr [\<lparr>Task = (exampleTask 1 ''import'' TaskStateReverting 6 1)\<rparr>,
            \<lparr>Task = (exampleTask 2 ''import'' TaskStatePausing 2 1)\<rparr>,
            \<lparr>Task = (exampleTask 4 ''import'' TaskStatePausing 1 5)\<rparr>]\<rparr>)"
         and i = 1
         and executor = "exampleExecutor None False (Some Returned) (exampleTask 1 ''import'' TaskStateRunning 6 1)"
         and err = None
         and w' = "(exampleWorld\<lparr>fetch := Inr [\<lparr>Task = (exampleTask 1 ''import'' TaskStateReverting 6 1)\<rparr>,
            \<lparr>Task = (exampleTask 2 ''import'' TaskStatePausing 2 1)\<rparr>,
            \<lparr>Task = (exampleTask 4 ''import'' TaskStatePausing 1 5)\<rparr>]\<rparr>)\<lparr>received :=
                     [Executor_CancelRunningSubtask 1,
                      TaskTable_PauseSubtasks '':4000'' 2]\<rparr>"]
    reverting_and_pausing_tasks_are_signalled
      [where env = exampleEnv
         and m = "((startTaskExecutor exampleEnv (exampleTask 4 ''import'' TaskStateRunning 1 5)
        (startTaskExecutor exampleEnv (exampleTask 1 ''import'' TaskStateRunning 6 1) exampleManager))
        \<lparr>world := (exampleWorld\<lparr>fetch := Inr [\<lparr>Task = (exampleTask 1 ''import'' TaskStateReverting 6 1)\<rparr>,
            \<lparr>Task = (exampleTask 2 ''import'' TaskStatePausing 2 1)\<rparr>,
            \<lparr>Task = (exampleTask 4 ''import'' TaskStatePausing 1 5)\<rparr>]\<rparr>)\<rparr>)"
         and tasks = "[\<lparr>Task = (exampleTask 1 ''import'' TaskStateReverting 6 1)\<rparr>,
            \<lparr>Task = (exampleTask 2 ''import'' TaskStatePausing 2 1)\<rparr>,
            \<lparr>Task = (exampleTask 4 ''import'' TaskStatePausing 1 5)\<rparr>]"
         and w = "(exampleWorld\<lparr>fetch := Inr [\<lparr>Task = (exampleTask 1 ''import'' TaskStateReverting 6 1)\<rparr>,
            \<lparr>Task = (exampleTask 2 ''import'' TaskStatePausing 2 1)\<rparr>,
            \<lparr>Task = (exampleTask 4 ''import'' TaskStatePausing 1 5)\<rparr>]\<rparr>)"
         and i = 2
         and executor = "exampleExecutor None False (Some Returned) (exampleTask 4 ''import'' TaskStateRunning 1 5)"
         and err = None
         and w' = "(exampleWorld\<lparr>fetch := Inr [\<lparr>Task = (exampleTask 1 ''import'' TaskStateReverting 6 1)\<rparr>,
            \<lparr>Task = (exampleTask 2 ''import'' TaskStatePausing 2 1)\<rparr>,
            \<lparr>Task = (exampleTask 4 ''import'' TaskStatePausing 1 5)\<rparr>]\<rparr>)\<lparr>received :=
                     [Executor_CancelRunningSubtask 1,
                      TaskTable_PauseSubtasks '':4000'' 2,
                      Executor_Cancel 4,
                      TaskTable_PauseSubtasks '':4000'' 4]\<rparr>"]
  by (simp add: example_defs startTaskExecutor_def Let_def addTaskExecutor_def handleTasks_def
      cancelRunningSubtaskOf_def handlePausingTask_def isExecutorStarted_def
      fetchedTaskState_def)

section \<open>One executor per task id\<close>

subsection \<open>The lock around the executor set\<close>























subsection \<open>The executor set is keyed by task id\<close>

















lemma NewManager_taskExecutors:
  "NewManager env ident memTotal cpuCount w = Inr m0 \<Longrightarrow> taskExecutors m0 = Map.empty"
  by (auto simp: NewManager_def split: sum.splits if_splits)

subsection \<open>The live units and the executor set\<close>


















end
